theory Spec2Isabelle
  imports Main
begin

section \<open>Values exchanged with the archive\<close>

text \<open>
  The script handles whatever \<^verbatim>\<open>response.json()\<close> returns: Python values built from
  dictionaries, lists, strings, integers, booleans and \<^verbatim>\<open>None\<close>. A dictionary is a
  list of key/value pairs with pairwise different keys, looked up by key. Text is a list
  of 8-bit characters (code points below 256); numbers are integers (floating point
  numbers are not part of the model).
\<close>

datatype json =
    JNull
  | JBool bool
  | JInt int
  | JStr string
  | JList "json list"
  | JObj "(string \<times> json) list"

text \<open>The exceptions the script can meet, by Python class.\<close>

datatype exn =
    KeyError
  | TypeError
  | AttributeError
  | JSONDecodeError
  | RequestException
  | HTTPError int
  | OSError
  | SystemExit int

text \<open>\<^verbatim>\<open>d.get(k, default)\<close>: only a dictionary has the method.\<close>

fun py_get :: "json \<Rightarrow> string \<Rightarrow> json \<Rightarrow> exn + json" where
  "py_get (JObj kvs) k d = Inr (case map_of kvs k of None \<Rightarrow> d | Some v \<Rightarrow> v)"
| "py_get _ k d = Inl AttributeError"

text \<open>\<^verbatim>\<open>d[k]\<close> with a string key: a missing key raises KeyError, and a value that is
  not a dictionary cannot be indexed by a string.\<close>

fun py_subscript :: "json \<Rightarrow> string \<Rightarrow> exn + json" where
  "py_subscript (JObj kvs) k = (case map_of kvs k of None \<Rightarrow> Inl KeyError | Some v \<Rightarrow> Inr v)"
| "py_subscript _ k = Inl TypeError"

text \<open>Truth value of a Python object, as \<^verbatim>\<open>if not x\<close> tests it.\<close>

fun py_truthy :: "json \<Rightarrow> bool" where
  "py_truthy JNull = False"
| "py_truthy (JBool b) = b"
| "py_truthy (JInt i) = (i \<noteq> 0)"
| "py_truthy (JStr s) = (s \<noteq> [])"
| "py_truthy (JList xs) = (xs \<noteq> [])"
| "py_truthy (JObj kvs) = (kvs \<noteq> [])"

text \<open>Iterating a value (\<^verbatim>\<open>for x in v\<close>, \<^verbatim>\<open>list.extend(v)\<close>): a list gives its
  elements, a string its characters as one-character strings, a dictionary its keys.\<close>

fun py_iter :: "json \<Rightarrow> exn + json list" where
  "py_iter (JList xs) = Inr xs"
| "py_iter (JStr s) = Inr (map (\<lambda>c. JStr [c]) s)"
| "py_iter (JObj kvs) = Inr (map (\<lambda>kv. JStr (fst kv)) kvs)"
| "py_iter _ = Inl TypeError"

fun py_len :: "json \<Rightarrow> exn + nat" where
  "py_len (JList xs) = Inr (length xs)"
| "py_len (JStr s) = Inr (length s)"
| "py_len (JObj kvs) = Inr (length kvs)"
| "py_len _ = Inl TypeError"

text \<open>\<^verbatim>\<open>n >= v\<close> for an integer \<open>n\<close>: defined against integers and booleans
  (\<^verbatim>\<open>True\<close> is 1), a TypeError against anything else.\<close>

fun py_ge :: "nat \<Rightarrow> json \<Rightarrow> exn + bool" where
  "py_ge n (JInt t) = Inr (t \<le> int n)"
| "py_ge n (JBool b) = Inr ((if b then 1 else 0) \<le> n)"
| "py_ge n _ = Inl TypeError"

text \<open>\<^verbatim>\<open>n == v\<close> for an integer \<open>n\<close>: never raises.\<close>

fun py_eq :: "nat \<Rightarrow> json \<Rightarrow> bool" where
  "py_eq n (JInt t) = (int n = t)"
| "py_eq n (JBool b) = (n = (if b then 1 else 0))"
| "py_eq n _ = False"

section \<open>The outside world\<close>

text \<open>
  A path is what \<^verbatim>\<open>pathlib\<close> keeps of it: the root (empty for a relative path) and
  the components. Joining with a string parses the string: empty and \<^verbatim>\<open>.\<close>
  components vanish, \<^verbatim>\<open>..\<close> stays, and an absolute right operand replaces the left
  one. Paths are compared as written; links and \<^verbatim>\<open>..\<close> are not resolved.
\<close>

type_synonym path = "string \<times> string list"

fun split_slash :: "string \<Rightarrow> string \<Rightarrow> string list" where
  "split_slash acc [] = [rev acc]"
| "split_slash acc (c # cs) =
     (if c = CHR ''/'' then rev acc # split_slash [] cs else split_slash (c # acc) cs)"

definition parts :: "string \<Rightarrow> string list" where
  "parts s = filter (\<lambda>p. p \<noteq> [] \<and> p \<noteq> ''.'') (split_slash [] s)"

definition root_of :: "string \<Rightarrow> string" where
  "root_of s =
     (if take 2 s = ''//'' \<and> take 3 s \<noteq> ''///'' then ''//''
      else if take 1 s = ''/'' then ''/'' else [])"

definition pjoin :: "path \<Rightarrow> string \<Rightarrow> path" where
  "pjoin p s = (if root_of s \<noteq> [] then (root_of s, parts s) else (fst p, snd p @ parts s))"

datatype request =
    ListReq nat nat "string option"
  | FileReq string "string option"

text \<open>What the script prints, one constructor for each \<^verbatim>\<open>print\<close> of the source, with
  the values it interpolates.\<close>

datatype msg =
    MFetchingDebug
  | MFetching
  | MErrFetching int
  | MResponse string
  | MFetchedPage nat nat
  | MTotalFound nat
  | MSkipping string
  | MDownloading string json
  | MDownloaded string
  | MErrDownloading string exn
  | MProcessingDebug json json
  | MProcessing json json
  | MFilesToDownload nat
  | MNoFiles
  | MTally nat nat
  | MMetadataSaved
  | MNoKey
  | MKeyHint
  | MBanner
  | MBannerRule
  | MDebugEnabled
  | MNoRecords
  | MStarting nat bool
  | MIndex nat nat
  | MComplete

text \<open>The state a run changes: the directories and files of the local file system, the
  HTTP requests sent so far and the lines printed so far.\<close>

record world =
  dirs :: "path set"
  files :: "path \<rightharpoonup> string"
  net :: "request list"
  console :: "msg list"

text \<open>Answer to a listing request: the request itself fails with an exception, or a
  response arrives with a status code, a text and, when the text is JSON, its value.\<close>

datatype listing_response =
    LConnError
  | LResponse int string "json option"

text \<open>Answer to a file request: an exception, or a response with a status code and the
  chunks \<^verbatim>\<open>iter_content\<close> delivers; the flag is False when the stream breaks with an
  exception after these chunks.\<close>

datatype file_response =
    DConnError
  | DResponse int "string list" bool

text \<open>What a run reads and never changes: the environment variables, the parsed command
  line, the remote service, and three library functions taken as they are
  (\<^verbatim>\<open>str()\<close> of a list or dictionary, \<^verbatim>\<open>json.dumps(..., indent=2)\<close>, and the size
  \<^verbatim>\<open>stat()\<close> reports for a directory).\<close>

record env =
  api_key :: "string option"
  debug_env :: "string option"
  args_debug :: bool
  listing :: "nat \<Rightarrow> nat \<Rightarrow> listing_response"
  fetch :: "string \<Rightarrow> file_response"
  py_repr :: "json \<Rightarrow> string"
  json_dumps :: "json \<Rightarrow> string"
  dir_st_size :: nat

definition say :: "msg list \<Rightarrow> world \<Rightarrow> world" where
  "say ms w = w\<lparr>console := console w @ ms\<rparr>"

definition send :: "request \<Rightarrow> world \<Rightarrow> world" where
  "send r w = w\<lparr>net := net w @ [r]\<rparr>"

subsection \<open>Local file system\<close>

definition data_dir :: path where
  "data_dir = ([], [''data''])"

text \<open>The current directory and the root have no component of their own and always
  are directories.\<close>

definition is_dir :: "world \<Rightarrow> path \<Rightarrow> bool" where
  "is_dir w p = (snd p = [] \<or> p \<in> dirs w)"

definition parent :: "path \<Rightarrow> path" where
  "parent p = (fst p, butlast (snd p))"

definition path_exists :: "world \<Rightarrow> path \<Rightarrow> bool" where
  "path_exists w p = (is_dir w p \<or> p \<in> dom (files w))"

text \<open>\<^verbatim>\<open>Path.mkdir(exist_ok=True)\<close>: nothing happens to a directory that is there;
  a file of that name or a missing parent raises.\<close>

definition mkdir :: "path \<Rightarrow> world \<Rightarrow> exn + world" where
  "mkdir p w =
     (if is_dir w p then Inr w
      else if p \<in> dom (files w) \<or> \<not> is_dir w (parent p) then Inl OSError
      else Inr (w\<lparr>dirs := insert p (dirs w)\<rparr>))"

text \<open>\<^verbatim>\<open>Path.stat().st_size\<close>.\<close>

definition st_size :: "env \<Rightarrow> world \<Rightarrow> path \<Rightarrow> exn + nat" where
  "st_size env w p =
     (if is_dir w p then Inr (dir_st_size env)
      else case files w p of None \<Rightarrow> Inl OSError | Some content \<Rightarrow> Inr (length content))"

text \<open>\<^verbatim>\<open>open(p, 'w')\<close> and \<^verbatim>\<open>open(p, 'wb')\<close>: the file is created or emptied.\<close>

definition open_write :: "path \<Rightarrow> world \<Rightarrow> exn + world" where
  "open_write p w =
     (if is_dir w p \<or> \<not> is_dir w (parent p) then Inl OSError
      else Inr (w\<lparr>files := (files w)(p \<mapsto> [])\<rparr>))"

text \<open>\<^verbatim>\<open>f.write(data)\<close> on the file opened at \<open>p\<close>.\<close>

definition write_bytes :: "path \<Rightarrow> string \<Rightarrow> world \<Rightarrow> world" where
  "write_bytes p data w =
     w\<lparr>files := (files w)(p \<mapsto> (case files w p of None \<Rightarrow> [] | Some content \<Rightarrow> content) @ data)\<rparr>"

subsection \<open>Text\<close>

text \<open>\<^verbatim>\<open>str.isalnum\<close>, \<^verbatim>\<open>str.isspace\<close> and \<^verbatim>\<open>str.lower\<close> on the code points
  below 256, as Python's Unicode tables have them.\<close>

definition isalnum :: "char \<Rightarrow> bool" where
  "isalnum c =
     (let n = (of_char c :: nat)
      in (48 \<le> n \<and> n \<le> 57) \<or> (65 \<le> n \<and> n \<le> 90) \<or> (97 \<le> n \<and> n \<le> 122)
         \<or> n \<in> {170, 178, 179, 181, 185, 186, 188, 189, 190}
         \<or> (192 \<le> n \<and> n \<le> 214) \<or> (216 \<le> n \<and> n \<le> 246) \<or> 248 \<le> n)"

definition isspace :: "char \<Rightarrow> bool" where
  "isspace c = ((of_char c :: nat) \<in> {9, 10, 11, 12, 13, 28, 29, 30, 31, 32, 133, 160})"

definition lower_char :: "char \<Rightarrow> char" where
  "lower_char c =
     (let n = (of_char c :: nat)
      in if (65 \<le> n \<and> n \<le> 90) \<or> (192 \<le> n \<and> n \<le> 214) \<or> (216 \<le> n \<and> n \<le> 222)
         then char_of (n + 32) else c)"

text \<open>\<^verbatim>\<open>s.isalnum()\<close> on a whole string.\<close>

definition str_isalnum :: "string \<Rightarrow> bool" where
  "str_isalnum s = (s \<noteq> [] \<and> list_all isalnum s)"

definition rstrip :: "string \<Rightarrow> string" where
  "rstrip s = rev (dropWhile isspace (rev s))"

text \<open>\<^verbatim>\<open>str(v)\<close>, as an f-string formats \<open>v\<close>.\<close>

definition digit_char :: "nat \<Rightarrow> char" where
  "digit_char d = ''0123456789'' ! d"

fun digits :: "nat \<Rightarrow> string" where
  "digits n = (if n < 10 then [digit_char n] else digits (n div 10) @ [digit_char (n mod 10)])"

declare digits.simps [simp del]

definition str_int :: "int \<Rightarrow> string" where
  "str_int i = (if i < 0 then CHR ''-'' # digits (nat (- i)) else digits (nat i))"

fun py_str :: "env \<Rightarrow> json \<Rightarrow> string" where
  "py_str env JNull = ''None''"
| "py_str env (JBool b) = (if b then ''True'' else ''False'')"
| "py_str env (JInt i) = str_int i"
| "py_str env (JStr s) = s"
| "py_str env v = py_repr env v"

section \<open>Record enumerator\<close>

text \<open>\<^verbatim>\<open>data.get('hits', {}).get('hits', [])\<close> and
  \<^verbatim>\<open>data.get('hits', {}).get('total', 0)\<close>.\<close>

definition page_records :: "json \<Rightarrow> exn + json" where
  "page_records data =
     (case py_get data ''hits'' (JObj []) of
        Inl e \<Rightarrow> Inl e
      | Inr h \<Rightarrow> py_get h ''hits'' (JList []))"

definition page_total :: "json \<Rightarrow> exn + json" where
  "page_total data =
     (case py_get data ''hits'' (JObj []) of
        Inl e \<Rightarrow> Inl e
      | Inr h \<Rightarrow> py_get h ''total'' (JInt 0))"

text \<open>One pass through the body of \<^verbatim>\<open>while True\<close> in \<^verbatim>\<open>get_iodp_records\<close>: it ends
  the loop by \<^verbatim>\<open>break\<close> with the records to return, ends it with an exception, or goes
  on to the next page with the records so far.\<close>

datatype page_step =
    Break "json list" world
  | Raise exn world
  | NextPage "json list" world

definition fetch_page :: "env \<Rightarrow> bool \<Rightarrow> nat \<Rightarrow> nat \<Rightarrow> json list \<Rightarrow> world \<Rightarrow> page_step" where
  "fetch_page env debug size' page all_records w =
     (let w1 = send (ListReq page size' (api_key env)) w in
      case listing env page size' of
        LConnError \<Rightarrow> Raise RequestException w1
      | LResponse status_code text body \<Rightarrow>
          if status_code \<noteq> 200 then
            Break all_records (say [MErrFetching status_code, MResponse text] w1)
          else
            (case body of
               None \<Rightarrow> Raise JSONDecodeError w1
             | Some data \<Rightarrow>
                 (case page_records data of
                    Inl e \<Rightarrow> Raise e w1
                  | Inr records \<Rightarrow>
                      if \<not> py_truthy records then Break all_records w1
                      else
                        (case py_iter records of
                           Inl e \<Rightarrow> Raise e w1
                         | Inr items \<Rightarrow>
                             (let all' = all_records @ items;
                                  w2 = say [MFetchedPage page (length all')] w1
                              in if debug \<and> 2 \<le> length all' then Break (take 2 all') w2
                                 else
                                   (case page_total data of
                                      Inl e \<Rightarrow> Raise e w2
                                    | Inr total' \<Rightarrow>
                                        (case py_ge (length all') total' of
                                           Inl e \<Rightarrow> Raise e w2
                                         | Inr reached \<Rightarrow>
                                             if reached then Break all' w2
                                             else NextPage all' w2)))))))"

text \<open>The loop itself. Nothing bounds the number of pages a server can make the script
  ask for, so the loop is a partial function: \<open>None\<close> is a run that never leaves it.
  The pause between two pages (\<^verbatim>\<open>time.sleep(0.1)\<close>) changes nothing in the state.\<close>

partial_function (option) fetch_pages ::
  "env \<Rightarrow> bool \<Rightarrow> nat \<Rightarrow> nat \<Rightarrow> json list \<Rightarrow> world \<Rightarrow> ((exn + json list) \<times> world) option" where
  "fetch_pages env debug size' page all_records w =
     (case fetch_page env debug size' page all_records w of
        Break rs w' \<Rightarrow> Some (Inr rs, w')
      | Raise e w' \<Rightarrow> Some (Inl e, w')
      | NextPage rs w' \<Rightarrow> fetch_pages env debug size' (page + 1) rs w')"

definition get_iodp_records :: "env \<Rightarrow> bool \<Rightarrow> world \<Rightarrow> ((exn + json list) \<times> world) option" where
  "get_iodp_records env debug w =
     (case fetch_pages env debug (if debug then 2 else 50) 1 []
             (say [if debug then MFetchingDebug else MFetching] w) of
        None \<Rightarrow> None
      | Some (Inl e, w') \<Rightarrow> Some (Inl e, w')
      | Some (Inr all_records, w') \<Rightarrow>
          Some (Inr all_records, say [MTotalFound (length all_records)] w'))"

section \<open>File mirror\<close>

text \<open>The generator of line 101: it keeps the items of the title that are alphanumeric
  or one of space, hyphen and underscore, and joins them. An item that is not a string
  has no \<^verbatim>\<open>isalnum\<close>.\<close>

fun kept :: "json list \<Rightarrow> exn + string" where
  "kept [] = Inr []"
| "kept (JStr c # cs) =
     (case kept cs of
        Inl e \<Rightarrow> Inl e
      | Inr r \<Rightarrow> Inr ((if str_isalnum c \<or> c \<in> {'' '', ''-'', ''_''} then c else []) @ r))"
| "kept (_ # cs) = Inl AttributeError"

definition safe_title :: "json \<Rightarrow> exn + string" where
  "safe_title record_title =
     (case py_iter record_title of
        Inl e \<Rightarrow> Inl e
      | Inr cs \<Rightarrow> (case kept cs of Inl e \<Rightarrow> Inl e | Inr s \<Rightarrow> Inr (rstrip s)))"

text \<open>Line 102: \<^verbatim>\<open>safe_title[:100]\<close>.\<close>

definition dir_name :: "string \<Rightarrow> string" where
  "dir_name safe = take 100 safe"

text \<open>Lines 92 to 94: the name, the download reference and the size of a file.\<close>

definition file_fields :: "json \<Rightarrow> exn + json \<times> json \<times> json" where
  "file_fields file_info =
     (case py_subscript file_info ''key'' of
        Inl e \<Rightarrow> Inl e
      | Inr filename \<Rightarrow>
          (case py_subscript file_info ''links'' of
             Inl e \<Rightarrow> Inl e
           | Inr links \<Rightarrow>
               (case py_subscript links ''self'' of
                  Inl e \<Rightarrow> Inl e
                | Inr download_url \<Rightarrow>
                    (case py_get file_info ''size'' (JInt 0) of
                       Inl e \<Rightarrow> Inl e
                     | Inr file_size \<Rightarrow> Inr (filename, download_url, file_size)))))"

text \<open>Lines 97 to 103: the directory of the record (\<^verbatim>\<open>data/record_<id>\<close>) and, inside
  it, the directory named by the sanitized title cut to 100 characters; both are made if
  they are not there.\<close>

definition record_dir :: "env \<Rightarrow> json \<Rightarrow> path" where
  "record_dir env record_id = pjoin data_dir (''record_'' @ py_str env record_id)"

definition title_dir :: "env \<Rightarrow> json \<Rightarrow> json \<Rightarrow> world \<Rightarrow> (exn + path) \<times> world" where
  "title_dir env record_id record_title w =
     (case mkdir (record_dir env record_id) w of
        Inl e \<Rightarrow> (Inl e, w)
      | Inr w1 \<Rightarrow>
          (case safe_title record_title of
             Inl e \<Rightarrow> (Inl e, w1)
           | Inr safe \<Rightarrow>
               (let d = pjoin (record_dir env record_id) (dir_name safe)
                in case mkdir d w1 of
                     Inl e \<Rightarrow> (Inl e, w1)
                   | Inr w2 \<Rightarrow> (Inr d, w2))))"

text \<open>Line 108: \<^verbatim>\<open>file_path.exists() and file_path.stat().st_size == file_size\<close>.\<close>

definition already_there :: "env \<Rightarrow> world \<Rightarrow> path \<Rightarrow> json \<Rightarrow> exn + bool" where
  "already_there env w file_path file_size =
     (if path_exists w file_path then
        (case st_size env w file_path of
           Inl e \<Rightarrow> Inl e
         | Inr n \<Rightarrow> Inr (py_eq n file_size))
      else Inr False)"

text \<open>Lines 119 to 121: the chunks are written in order, empty ones left out.\<close>

fun write_chunks :: "path \<Rightarrow> string list \<Rightarrow> world \<Rightarrow> world" where
  "write_chunks p [] w = w"
| "write_chunks p (chunk # rest) w =
     write_chunks p rest (if chunk \<noteq> [] then write_bytes p chunk w else w)"

text \<open>Lines 115 to 121, the body of \<^verbatim>\<open>try\<close>. A request is logged for every call of
  \<^verbatim>\<open>requests.get\<close> with a string; anything else is refused by the library before
  a request leaves. \<^verbatim>\<open>raise_for_status\<close> raises on the statuses 400 to 599.\<close>

definition save_stream :: "env \<Rightarrow> json \<Rightarrow> path \<Rightarrow> world \<Rightarrow> (exn + unit) \<times> world" where
  "save_stream env download_url file_path w =
     (case download_url of
        JStr url \<Rightarrow>
          (let w1 = send (FileReq url (api_key env)) w
           in case fetch env url of
                DConnError \<Rightarrow> (Inl RequestException, w1)
              | DResponse status_code chunks complete \<Rightarrow>
                  if 400 \<le> status_code \<and> status_code < 600 then (Inl (HTTPError status_code), w1)
                  else
                    (case open_write file_path w1 of
                       Inl e \<Rightarrow> (Inl e, w1)
                     | Inr w2 \<Rightarrow>
                         (let w3 = write_chunks file_path chunks w2
                          in if complete then (Inr (), w3) else (Inl RequestException, w3))))
      | _ \<Rightarrow> (Inl RequestException, w))"

definition download_file :: "env \<Rightarrow> json \<Rightarrow> json \<Rightarrow> json \<Rightarrow> world \<Rightarrow> (exn + bool) \<times> world" where
  "download_file env file_info record_id record_title w =
     (case file_fields file_info of
        Inl e \<Rightarrow> (Inl e, w)
      | Inr (filename, download_url, file_size) \<Rightarrow>
          (case title_dir env record_id record_title w of
             (Inl e, w') \<Rightarrow> (Inl e, w')
           | (Inr d, w2) \<Rightarrow>
               (case filename of
                  JStr name \<Rightarrow>
                    (let file_path = pjoin d name
                     in case already_there env w2 file_path file_size of
                          Inl e \<Rightarrow> (Inl e, w2)
                        | Inr skip \<Rightarrow>
                            if skip then (Inr True, say [MSkipping name] w2)
                            else
                              (case save_stream env download_url file_path
                                      (say [MDownloading name file_size] w2) of
                                 (Inr u, w3) \<Rightarrow> (Inr True, say [MDownloaded name] w3)
                               | (Inl e, w3) \<Rightarrow> (Inr False, say [MErrDownloading name e] w3)))
                | _ \<Rightarrow> (Inl TypeError, w2))))"

text \<open>The loop of lines 150 to 152.\<close>

fun download_files :: "env \<Rightarrow> json list \<Rightarrow> json \<Rightarrow> json \<Rightarrow> nat \<Rightarrow> world \<Rightarrow> (exn + nat) \<times> world" where
  "download_files env [] record_id title_v success_count w = (Inr success_count, w)"
| "download_files env (file_info # rest) record_id title_v success_count w =
     (case download_file env file_info record_id title_v w of
        (Inl e, w') \<Rightarrow> (Inl e, w')
      | (Inr ok, w') \<Rightarrow>
          download_files env rest record_id title_v
            (if ok then success_count + 1 else success_count) w')"

text \<open>\<^verbatim>\<open>files[:2]\<close>: a dictionary cannot be sliced.\<close>

fun py_first2 :: "json \<Rightarrow> exn + json" where
  "py_first2 (JList xs) = Inr (JList (take 2 xs))"
| "py_first2 (JStr s) = Inr (JStr (take 2 s))"
| "py_first2 _ = Inl TypeError"

text \<open>Lines 132 to 141: the fields of the record and, in debug mode, the cut to two
  files; the result is the id, the title, the files to process and the line printed.\<close>

definition record_fields :: "json \<Rightarrow> bool \<Rightarrow> exn + json \<times> json \<times> json \<times> msg" where
  "record_fields record debug =
     (case py_subscript record ''id'' of
        Inl e \<Rightarrow> Inl e
      | Inr record_id \<Rightarrow>
          (case py_subscript record ''metadata'' of
             Inl e \<Rightarrow> Inl e
           | Inr metadata \<Rightarrow>
               (case py_get metadata ''title'' (JStr ''Unknown Title'') of
                  Inl e \<Rightarrow> Inl e
                | Inr title_v \<Rightarrow>
                    (case py_get record ''files'' (JList []) of
                       Inl e \<Rightarrow> Inl e
                     | Inr files_v \<Rightarrow>
                         if debug then
                           (case py_len files_v of
                              Inl e \<Rightarrow> Inl e
                            | Inr n \<Rightarrow>
                                if 2 < n then
                                  (case py_first2 files_v of
                                     Inl e \<Rightarrow> Inl e
                                   | Inr first2 \<Rightarrow>
                                       Inr (record_id, title_v, first2, MProcessingDebug record_id title_v))
                                else Inr (record_id, title_v, files_v, MProcessing record_id title_v))
                         else Inr (record_id, title_v, files_v, MProcessing record_id title_v)))))"

definition download_record_data :: "env \<Rightarrow> json \<Rightarrow> bool \<Rightarrow> world \<Rightarrow> (exn + unit) \<times> world" where
  "download_record_data env record debug w =
     (case record_fields record debug of
        Inl e \<Rightarrow> (Inl e, w)
      | Inr (record_id, title_v, files_v, line) \<Rightarrow>
          (let w1 = say [line] w
           in case py_len files_v of
                Inl e \<Rightarrow> (Inl e, w1)
              | Inr n \<Rightarrow>
                  (let w2 = say [MFilesToDownload n] w1
                   in if \<not> py_truthy files_v then (Inr (), say [MNoFiles] w2)
                      else
                        (case py_iter files_v of
                           Inl e \<Rightarrow> (Inl e, w2)
                         | Inr file_infos \<Rightarrow>
                             (case download_files env file_infos record_id title_v 0 w2 of
                                (Inl e, w3) \<Rightarrow> (Inl e, w3)
                              | (Inr success_count, w3) \<Rightarrow>
                                  (Inr (), say [MTally success_count n] w3))))))"

section \<open>Metadata exporter\<close>

text \<open>The inner comprehension of line 170.\<close>

definition file_entry :: "json \<Rightarrow> exn + json" where
  "file_entry f =
     (case py_subscript f ''key'' of
        Inl e \<Rightarrow> Inl e
      | Inr k \<Rightarrow>
          (case py_get f ''size'' (JInt 0) of
             Inl e \<Rightarrow> Inl e
           | Inr s \<Rightarrow> Inr (JObj [(''key'', k), (''size'', s)])))"

fun file_entries :: "json list \<Rightarrow> exn + json list" where
  "file_entries [] = Inr []"
| "file_entries (f # fs) =
     (case file_entry f of
        Inl e \<Rightarrow> Inl e
      | Inr x \<Rightarrow> (case file_entries fs of Inl e \<Rightarrow> Inl e | Inr xs \<Rightarrow> Inr (x # xs)))"

text \<open>Lines 163 to 171: the dictionary built for one record, its values evaluated in
  the order written.\<close>

definition meta :: "json \<Rightarrow> exn + json" where
  "meta record =
     (case py_subscript record ''id'' of
        Inl e \<Rightarrow> Inl e
      | Inr record_id \<Rightarrow>
          (case py_subscript record ''metadata'' of
             Inl e \<Rightarrow> Inl e
           | Inr md \<Rightarrow>
               (case py_get md ''title'' JNull of
                  Inl e \<Rightarrow> Inl e
                | Inr title_v \<Rightarrow>
                    (case py_get md ''description'' JNull of
                       Inl e \<Rightarrow> Inl e
                     | Inr description \<Rightarrow>
                         (case py_get md ''creators'' (JList []) of
                            Inl e \<Rightarrow> Inl e
                          | Inr creators \<Rightarrow>
                              (case py_get md ''publication_date'' JNull of
                                 Inl e \<Rightarrow> Inl e
                               | Inr publication_date \<Rightarrow>
                                   (case py_get record ''doi'' JNull of
                                      Inl e \<Rightarrow> Inl e
                                    | Inr doi \<Rightarrow>
                                        (case py_get record ''files'' (JList []) of
                                           Inl e \<Rightarrow> Inl e
                                         | Inr files_v \<Rightarrow>
                                             (case py_iter files_v of
                                                Inl e \<Rightarrow> Inl e
                                              | Inr fs \<Rightarrow>
                                                  (case file_entries fs of
                                                     Inl e \<Rightarrow> Inl e
                                                   | Inr entries \<Rightarrow>
                                                       Inr (JObj
                                                         [(''id'', record_id),
                                                          (''title'', title_v),
                                                          (''description'', description),
                                                          (''creators'', creators),
                                                          (''publication_date'', publication_date),
                                                          (''doi'', doi),
                                                          (''files'', JList entries)])))))))))))"

fun metas :: "json list \<Rightarrow> exn + json list" where
  "metas [] = Inr []"
| "metas (record # records) =
     (case meta record of
        Inl e \<Rightarrow> Inl e
      | Inr m \<Rightarrow> (case metas records of Inl e \<Rightarrow> Inl e | Inr ms \<Rightarrow> Inr (m # ms)))"

definition metadata_file :: path where
  "metadata_file = pjoin data_dir ''iodp_metadata.json''"

definition save_metadata :: "env \<Rightarrow> json list \<Rightarrow> world \<Rightarrow> (exn + unit) \<times> world" where
  "save_metadata env records w =
     (case metas records of
        Inl e \<Rightarrow> (Inl e, w)
      | Inr metadata \<Rightarrow>
          (case open_write metadata_file w of
             Inl e \<Rightarrow> (Inl e, w)
           | Inr w1 \<Rightarrow>
               (Inr (), say [MMetadataSaved]
                          (write_bytes metadata_file (json_dumps env (JList metadata)) w1))))"

section \<open>Orchestrator\<close>

text \<open>Line 36: \<^verbatim>\<open>os.getenv('DEBUG', 'false').lower() in ('true', '1', 'yes')\<close>.\<close>

definition DEBUG :: "env \<Rightarrow> bool" where
  "DEBUG env =
     (map lower_char (case debug_env env of None \<Rightarrow> ''false'' | Some v \<Rightarrow> v)
        \<in> {''true'', ''1'', ''yes''})"

text \<open>The loop of lines 211 to 213.\<close>

fun download_records :: "env \<Rightarrow> bool \<Rightarrow> json list \<Rightarrow> nat \<Rightarrow> nat \<Rightarrow> world \<Rightarrow> (exn + unit) \<times> world" where
  "download_records env debug [] i n w = (Inr (), w)"
| "download_records env debug (record # rest) i n w =
     (case download_record_data env record debug (say [MIndex i n] w) of
        (Inl e, w') \<Rightarrow> (Inl e, w')
      | (Inr u, w') \<Rightarrow> download_records env debug rest (i + 1) n w')"

text \<open>\<^verbatim>\<open>main\<close>, with the command line already parsed (\<open>args_debug\<close>).\<close>

definition main :: "env \<Rightarrow> world \<Rightarrow> ((exn + unit) \<times> world) option" where
  "main env w =
     (let debug_mode = (args_debug env \<or> DEBUG env);
          w0 = say ([MBanner, MBannerRule] @ (if debug_mode then [MDebugEnabled] else [])) w
      in case get_iodp_records env debug_mode w0 of
           None \<Rightarrow> None
         | Some (Inl e, w1) \<Rightarrow> Some (Inl e, w1)
         | Some (Inr records, w1) \<Rightarrow>
             if records = [] then Some (Inr (), say [MNoRecords] w1)
             else
               (case save_metadata env records w1 of
                  (Inl e, w2) \<Rightarrow> Some (Inl e, w2)
                | (Inr u, w2) \<Rightarrow>
                    (case download_records env debug_mode records 1 (length records)
                            (say [MStarting (length records) debug_mode] w2) of
                       (Inl e, w3) \<Rightarrow> Some (Inl e, w3)
                     | (Inr u', w3) \<Rightarrow> Some (Inr (), say [MComplete] w3))))"

text \<open>The script from its first line: lines 21 to 29 run when the module is loaded,
  then \<^verbatim>\<open>main()\<close>.\<close>

definition script :: "env \<Rightarrow> world \<Rightarrow> ((exn + unit) \<times> world) option" where
  "script env w =
     (case mkdir data_dir w of
        Inl e \<Rightarrow> Some (Inl e, w)
      | Inr w1 \<Rightarrow>
          if api_key env = None \<or> api_key env = Some [] then
            Some (Inl (SystemExit 1), say [MNoKey, MKeyHint] w1)
          else main env w1)"

text \<open>The exit status of the process: 0 when the script runs to its end, the argument
  of \<^verbatim>\<open>sys.exit\<close>, and 1 when an exception reaches the top.\<close>

fun exit_status :: "exn + unit \<Rightarrow> int" where
  "exit_status (Inr u) = 0"
| "exit_status (Inl (SystemExit n)) = n"
| "exit_status (Inl e) = 1"

section \<open>The specification's descriptions\<close>

text \<open>The characters a directory name may contain, and the sanitizer in the
  specification's words: every other character stripped, the result cut to 100.\<close>

definition allowed_char :: "char \<Rightarrow> bool" where
  "allowed_char c = (isalnum c \<or> c = CHR '' '' \<or> c = CHR ''-'' \<or> c = CHR ''_'')"

definition strip_then_truncate :: "string \<Rightarrow> string" where
  "strip_then_truncate t = take 100 (filter allowed_char t)"









text \<open>The byte size of what is found at a path, if anything is.\<close>

definition local_size :: "env \<Rightarrow> world \<Rightarrow> path \<Rightarrow> nat option" where
  "local_size env w p =
     (if is_dir w p then Some (dir_st_size env) else map_option length (files w p))"

text \<open>For the mirror run twice: the directory of a record's title and the target path
  of a file, as \<^verbatim>\<open>download_file\<close> computes them; a file whose reported size is the
  number of bytes the service delivers for it; the two directories being in place; and a
  file being settled, which is the test of line 108 read on a world.\<close>

definition title_path :: "env \<Rightarrow> json \<Rightarrow> json \<Rightarrow> exn + path" where
  "title_path env record_id record_title =
     (case safe_title record_title of
        Inl e \<Rightarrow> Inl e
      | Inr safe \<Rightarrow> Inr (pjoin (record_dir env record_id) (dir_name safe)))"

definition target_path :: "env \<Rightarrow> json \<Rightarrow> json \<Rightarrow> json \<Rightarrow> path option" where
  "target_path env record_id record_title file_info =
     (case title_path env record_id record_title of
        Inl e \<Rightarrow> None
      | Inr d \<Rightarrow>
          (case file_fields file_info of
             Inr (JStr name, download_url, file_size) \<Rightarrow> Some (pjoin d name)
           | _ \<Rightarrow> None))"


definition dirs_made :: "env \<Rightarrow> json \<Rightarrow> json \<Rightarrow> world \<Rightarrow> bool" where
  "dirs_made env record_id record_title w =
     (case title_path env record_id record_title of
        Inl e \<Rightarrow> False
      | Inr d \<Rightarrow> is_dir w (record_dir env record_id) \<and> is_dir w d)"

definition settled :: "env \<Rightarrow> json \<Rightarrow> json \<Rightarrow> world \<Rightarrow> json \<Rightarrow> bool" where
  "settled env record_id record_title w file_info =
     (case target_path env record_id record_title file_info of
        None \<Rightarrow> False
      | Some p \<Rightarrow>
          (case file_fields file_info of
             Inr (filename, download_url, file_size) \<Rightarrow>
               (case local_size env w p of None \<Rightarrow> False | Some n \<Rightarrow> py_eq n file_size)
           | Inl e \<Rightarrow> False))"

section \<open>Remote listings and sample inputs\<close>

text \<open>A remote listing that returns the records \<open>rs\<close> in a fixed order and reports
  the total \<open>t\<close>: the body of page \<open>page\<close> for pages of \<open>size'\<close> records.\<close>

definition listing_page :: "json list \<Rightarrow> int \<Rightarrow> nat \<Rightarrow> nat \<Rightarrow> json" where
  "listing_page rs t size' page =
     JObj [(''hits'', JObj [(''hits'', JList (take size' (drop ((page - 1) * size') rs))),
                            (''total'', JInt t)])]"


definition world0 :: world where
  "world0 = \<lparr>dirs = {}, files = Map.empty, net = [], console = []\<rparr>"

definition three_records :: "json list" where
  "three_records = [JObj [(''id'', JInt 1)], JObj [(''id'', JInt 2)], JObj [(''id'', JInt 3)]]"

definition paged_env :: "json list \<Rightarrow> int \<Rightarrow> env" where
  "paged_env rs t =
     \<lparr>api_key = Some ''key'', debug_env = None, args_debug = False,
      listing = (\<lambda>page size'. LResponse 200 [] (Some (listing_page rs t size' page))),
      fetch = (\<lambda>url. DConnError), py_repr = (\<lambda>v. []), json_dumps = (\<lambda>v. []),
      dir_st_size = 4096\<rparr>"

text \<open>The scenario of the specification: page 1 brings 50 of 120 records, page 2
  answers with status 500.\<close>

definition fifty_records :: "json list" where
  "fifty_records = map (\<lambda>i. JObj [(''id'', JInt (int i))]) [0..<50]"

definition failing_env :: env where
  "failing_env =
     \<lparr>api_key = Some ''key'', debug_env = None, args_debug = False,
      listing = (\<lambda>page size'.
        if page = 1 then
          LResponse 200 []
            (Some (JObj [(''hits'', JObj [(''hits'', JList fifty_records), (''total'', JInt 120)])]))
        else LResponse 500 ''Internal Server Error'' None),
      fetch = (\<lambda>url. DConnError), py_repr = (\<lambda>v. []), json_dumps = (\<lambda>v. []),
      dir_st_size = 4096\<rparr>"



text \<open>A record with three files of three bytes each.\<close>

definition sample_file :: "string \<Rightarrow> string \<Rightarrow> json" where
  "sample_file name url =
     JObj [(''key'', JStr name), (''size'', JInt 3), (''links'', JObj [(''self'', JStr url)])]"

definition sample_record :: json where
  "sample_record =
     JObj [(''id'', JInt 7),
           (''metadata'', JObj [(''title'', JStr ''Core data'')]),
           (''files'', JList [sample_file ''a.txt'' ''u1'', sample_file ''b.txt'' ''u2'',
                              sample_file ''c.txt'' ''u3''])]"


definition no_key_env :: env where
  "no_key_env = (paged_env three_records 3)\<lparr>api_key := None\<rparr>"

text \<open>A service that lists the sample record and serves its first file in three chunks,
  the middle one empty; the second file is not found and the third request fails. It
  also serves two bytes at a fourth address.\<close>

definition serving_env :: env where
  "serving_env =
     \<lparr>api_key = Some ''key'', debug_env = None, args_debug = False,
      listing = (\<lambda>page size'. LResponse 200 [] (Some (listing_page [sample_record] 1 size' page))),
      fetch = (\<lambda>url. if url = ''u1'' then DResponse 200 [''ab'', [], ''c''] True
                     else if url = ''u2'' then DResponse 404 [] True
                     else if url = ''u4'' then DResponse 200 [''de''] True else DConnError),
      py_repr = (\<lambda>v. []), json_dumps = (\<lambda>v. ''[]''), dir_st_size = 4096\<rparr>"

definition sample_dir :: path where
  "sample_dir = ([], [''data'', ''record_7'', ''Core data''])"

text \<open>A world in which the directories of the sample record exist, holding the given
  files.\<close>

definition mirror_world :: "(path \<rightharpoonup> string) \<Rightarrow> world" where
  "mirror_world fs =
     \<lparr>dirs = {data_dir, ([], [''data'', ''record_7'']), sample_dir}, files = fs,
      net = [], console = []\<rparr>"

text \<open>A file entry without a size, and a service whose listing is not JSON.\<close>

definition sizeless_file :: json where
  "sizeless_file = JObj [(''key'', JStr ''a.txt''), (''links'', JObj [(''self'', JStr ''u1'')])]"


text \<open>A title with characters to strip and spaces at its end.\<close>

definition long_title :: string where
  "long_title = ''Exp 390: South-Atlantic_Transect (v2) !  ''"

definition long_title_dir :: string where
  "long_title_dir = ''Exp 390 South-Atlantic_Transect v2''"





section \<open>Properties of the record enumerator\<close>

lemma say_simps [simp]:
  "console (say ms w) = console w @ ms" "net (say ms w) = net w"
  "dirs (say ms w) = dirs w" "files (say ms w) = files w"
  by (simp_all add: say_def)

lemma send_simps [simp]:
  "net (send r w) = net w @ [r]" "console (send r w) = console w"
  "dirs (send r w) = dirs w" "files (send r w) = files w"
  by (simp_all add: send_def)

lemma paged_env_simps:
  "api_key (paged_env rs t) = Some ''key''" "debug_env (paged_env rs t) = None"
  "args_debug (paged_env rs t) = False"
  "listing (paged_env rs t) page size' = LResponse 200 [] (Some (listing_page rs t size' page))"
  by (simp_all add: paged_env_def)

lemma fetch_page_non_success:
  "listing env page size' = LResponse status tx body \<Longrightarrow> status \<noteq> 200 \<Longrightarrow>
   fetch_page env debug size' page all_records w =
     Break all_records
       (say [MErrFetching status, MResponse tx] (send (ListReq page size' (api_key env)) w))"
  by (simp add: fetch_page_def)

text \<open>
  Claim C5. Whatever page the loop has reached and whatever records it has accumulated,
  a listing response whose status is not 200 ends the loop without an exception: the
  enumerator logs the status and the response text and returns exactly the accumulated
  records.
\<close>

theorem non_success_page_returns_partial:
  assumes "listing env page size' = LResponse status tx body" and "status \<noteq> 200"
  shows "fetch_pages env debug size' page all_records w =
     Some (Inr all_records,
           say [MErrFetching status, MResponse tx] (send (ListReq page size' (api_key env)) w))"
  by (subst fetch_pages.simps) (simp add: fetch_page_non_success [OF assms])

lemma length_fifty_records: "length fifty_records = 50"
  by (simp add: fifty_records_def)

lemma fifty_records_first_page:
  "fetch_page failing_env False 50 1 [] w =
     NextPage fifty_records (say [MFetchedPage 1 50] (send (ListReq 1 50 (Some ''key'')) w))"
proof -
  have ne: "fifty_records \<noteq> []" using length_fifty_records by auto
  show ?thesis
    by (simp add: fetch_page_def failing_env_def page_records_def page_total_def Let_def ne
        length_fifty_records)
qed

theorem non_success_page_returns_partial_witness:
  "listing failing_env 2 50 = LResponse 500 ''Internal Server Error'' None \<and> (500::int) \<noteq> 200 \<and>
   get_iodp_records failing_env False world0 =
     Some (Inr fifty_records,
       say [MTotalFound 50]
        (say [MErrFetching 500, MResponse ''Internal Server Error'']
          (send (ListReq 2 50 (Some ''key''))
            (say [MFetchedPage 1 50] (send (ListReq 1 50 (Some ''key'')) (say [MFetching] world0))))))"
proof -
  let ?w1 = "say [MFetchedPage 1 50] (send (ListReq 1 50 (Some ''key'')) (say [MFetching] world0))"
  have l: "listing failing_env 2 50 = LResponse 500 ''Internal Server Error'' None"
    by (simp add: failing_env_def)
  have k: "api_key failing_env = Some ''key''" by (simp add: failing_env_def)
  have "fetch_pages failing_env False 50 1 [] (say [MFetching] world0) =
      fetch_pages failing_env False 50 (1 + 1) fifty_records ?w1"
    by (subst fetch_pages.simps) (simp only: fifty_records_first_page page_step.case)
  also have "\<dots> = fetch_pages failing_env False 50 2 fifty_records ?w1"
    by (simp only: one_add_one)
  also have "\<dots> = Some (Inr fifty_records,
        say [MErrFetching 500, MResponse ''Internal Server Error''] (send (ListReq 2 50 (Some ''key'')) ?w1))"
    using non_success_page_returns_partial [OF l, of False fifty_records ?w1]
    by (simp only: k)
  finally show ?thesis using l by (simp add: get_iodp_records_def length_fifty_records)
qed

lemma page_records_listing_page:
  "page_records (listing_page rs t s p) = Inr (JList (take s (drop ((p - 1) * s) rs)))"
  by (simp add: page_records_def listing_page_def)














subsection \<open>Debug mode\<close>

lemma truthy_iter_nonempty: "py_truthy v \<Longrightarrow> py_iter v = Inr items \<Longrightarrow> items \<noteq> []"
  by (cases v) auto

lemma fetch_page_NextPage_debug:
  "fetch_page env True size' page acc w = NextPage rs w' \<Longrightarrow>
     length acc < length rs \<and> length rs < 2 \<and> net w' = net w @ [ListReq page size' (api_key env)]"
  by (auto simp: fetch_page_def Let_def truthy_iter_nonempty
      split: listing_response.splits if_splits option.splits sum.splits)

lemma fetch_page_Break_debug:
  "fetch_page env True size' page acc w = Break rs w' \<Longrightarrow> length acc < 2 \<Longrightarrow>
     length rs \<le> 2 \<and> net w' = net w @ [ListReq page size' (api_key env)]"
  by (auto simp: fetch_page_def Let_def
      split: listing_response.splits if_splits option.splits sum.splits)

lemma fetch_page_Raise_net:
  "fetch_page env debug size' page acc w = Raise e w' \<Longrightarrow>
     net w' = net w @ [ListReq page size' (api_key env)]"
  by (auto simp: fetch_page_def Let_def
      split: listing_response.splits if_splits option.splits sum.splits)

text \<open>In debug mode the loop always ends, after two pages at most: every page it goes
  past has brought at least one record, and two records end it.\<close>

lemma fetch_pages_debug_total:
  "length acc < 2 \<Longrightarrow>
   \<exists>r w'. fetch_pages env True s p acc w = Some (r, w')
      \<and> (case r of Inl e \<Rightarrow> True | Inr rs \<Rightarrow> length rs \<le> 2)
      \<and> length (net w') + length acc \<le> length (net w) + 2"
proof (induction "2 - length acc" arbitrary: acc p w rule: less_induct)
  case less
  show ?case
  proof (cases "fetch_page env True s p acc w")
    case (Break rs w')
    with fetch_page_Break_debug [OF Break less.prems] less.prems show ?thesis
      by (subst fetch_pages.simps) simp
  next
    case (Raise e w')
    with fetch_page_Raise_net [OF Raise] less.prems show ?thesis
      by (subst fetch_pages.simps) simp
  next
    case (NextPage rs w')
    from fetch_page_NextPage_debug [OF NextPage]
    have len: "length acc < length rs" "length rs < 2"
      and nw: "net w' = net w @ [ListReq p s (api_key env)]" by simp_all
    from len have "2 - length rs < 2 - length acc" by arith
    from less.hyps [OF this len(2), of "p + 1" w']
    obtain r w'' where
      "fetch_pages env True s (p + 1) rs w' = Some (r, w'')"
      "case r of Inl e \<Rightarrow> True | Inr rs \<Rightarrow> length rs \<le> 2"
      "length (net w'') + length rs \<le> length (net w') + 2" by blast
    with NextPage nw len show ?thesis
      by (subst fetch_pages.simps) simp
  qed
qed

lemma get_iodp_records_debug:
  "\<exists>r w'. get_iodp_records env True w = Some (r, w')
      \<and> (case r of Inl e \<Rightarrow> True | Inr records \<Rightarrow> length records \<le> 2)
      \<and> length (net w') \<le> length (net w) + 2"
proof -
  from fetch_pages_debug_total [of "[]" env 2 1 "say [MFetchingDebug] w"]
  obtain r w' where
    "fetch_pages env True 2 1 [] (say [MFetchingDebug] w) = Some (r, w')"
    "case r of Inl e \<Rightarrow> True | Inr rs \<Rightarrow> length rs \<le> 2"
    "length (net w') \<le> length (net w) + 2" by auto
  then show ?thesis
    by (cases r) (simp_all add: get_iodp_records_def)
qed

section \<open>Properties of the file mirror\<close>

subsection \<open>What each step leaves alone\<close>

lemma mkdir_frame:
  "mkdir p w = Inr w' \<Longrightarrow>
     files w' = files w \<and> net w' = net w \<and> console w' = console w \<and> dirs w \<subseteq> dirs w'
     \<and> is_dir w' p"
  by (auto simp: mkdir_def is_dir_def split: if_splits)

lemma title_dir_frame:
  "title_dir env record_id record_title w = (r, w') \<Longrightarrow>
     files w' = files w \<and> net w' = net w \<and> console w' = console w \<and> dirs w \<subseteq> dirs w'"
  by (auto simp: title_dir_def Let_def split: sum.splits dest!: mkdir_frame)

lemma write_bytes_simps [simp]:
  "dirs (write_bytes p d w) = dirs w" "net (write_bytes p d w) = net w"
  "console (write_bytes p d w) = console w"
  "files (write_bytes p d w) = (files w)(p \<mapsto> (case files w p of None \<Rightarrow> [] | Some c \<Rightarrow> c) @ d)"
  by (simp_all add: write_bytes_def)

lemma write_chunks_frame [simp]:
  "dirs (write_chunks p cs w) = dirs w" "net (write_chunks p cs w) = net w"
  "console (write_chunks p cs w) = console w"
  by (induction cs arbitrary: w) simp_all

lemma write_chunks_files:
  "files w p = Some c \<Longrightarrow> files (write_chunks p cs w) = (files w)(p \<mapsto> c @ concat cs)"
  by (induction cs arbitrary: w c) auto

lemma open_write_frame:
  "open_write p w = Inr w' \<Longrightarrow>
     dirs w' = dirs w \<and> net w' = net w \<and> console w' = console w \<and> files w' = (files w)(p \<mapsto> [])
     \<and> \<not> is_dir w p"
  by (auto simp: open_write_def split: if_splits)

lemma save_stream_net:
  "save_stream env url p w = (r, w') \<Longrightarrow>
     length (net w') \<le> length (net w) + 1 \<and> dirs w' = dirs w \<and> console w' = console w"
  by (auto simp: save_stream_def Let_def split: json.splits file_response.splits if_splits sum.splits
      dest!: open_write_frame)

lemma download_file_net:
  "download_file env file_info record_id record_title w = (r, w') \<Longrightarrow>
     length (net w') \<le> length (net w) + 1"
  by (auto simp: download_file_def Let_def split: sum.splits prod.splits json.splits if_splits
      dest!: title_dir_frame save_stream_net)

lemma download_files_net:
  "download_files env fs record_id title_v c w = (r, w') \<Longrightarrow>
     length (net w') \<le> length (net w) + length fs"
proof (induction fs arbitrary: c w)
  case Nil
  then show ?case by simp
next
  case (Cons f fs)
  show ?case
  proof (cases "download_file env f record_id title_v w")
    case (Pair r1 w1)
    note n1 = download_file_net [OF Pair]
    show ?thesis
    proof (cases r1)
      case (Inl e)
      with Cons.prems Pair n1 show ?thesis by simp
    next
      case (Inr ok)
      with Cons.prems Pair have
        "download_files env fs record_id title_v (if ok then c + 1 else c) w1 = (r, w')" by simp
      from Cons.IH [OF this] n1 show ?thesis by simp
    qed
  qed
qed

subsection \<open>Debug mode\<close>

lemma record_fields_debug_cut:
  "record_fields record True = Inr (record_id, title_v, files_v, line) \<Longrightarrow>
     \<exists>items. py_iter files_v = Inr items \<and> py_len files_v = Inr (length items) \<and> length items \<le> 2"
  by (cases "py_get record ''files'' (JList [])"; cases files_v)
     (auto simp: record_fields_def split: sum.splits if_splits json.splits
       elim!: py_first2.elims py_len.elims)

lemma record_fields_debug_list:
  "record_fields record True = Inr (record_id, title_v, files_v, line) \<Longrightarrow>
   py_get record ''files'' (JList []) = Inr (JList fs) \<Longrightarrow> files_v = JList (take 2 fs)"
  by (auto simp: record_fields_def split: sum.splits if_splits)

lemma download_record_data_debug_net:
  "download_record_data env record True w = (r, w') \<Longrightarrow> length (net w') \<le> length (net w) + 2"
proof (cases "record_fields record True")
  case (Inl e)
  assume "download_record_data env record True w = (r, w')"
  with Inl show ?thesis by (simp add: download_record_data_def)
next
  case (Inr flds)
  assume run: "download_record_data env record True w = (r, w')"
  obtain record_id title_v files_v line where flds: "flds = (record_id, title_v, files_v, line)"
    by (cases flds) auto
  from record_fields_debug_cut [OF Inr [unfolded flds]] obtain items where
    it: "py_iter files_v = Inr items" "py_len files_v = Inr (length items)" "length items \<le> 2"
    by blast
  show ?thesis
  proof (cases "py_truthy files_v")
    case False
    with run Inr flds it show ?thesis by (auto simp: download_record_data_def Let_def)
  next
    case True
    obtain r3 w3 where
      d: "download_files env items record_id title_v 0
            (say [MFilesToDownload (length items)] (say [line] w)) = (r3, w3)"
      by (cases "download_files env items record_id title_v 0
            (say [MFilesToDownload (length items)] (say [line] w))") auto
    from download_files_net [OF d] it(3) have "length (net w3) \<le> length (net w) + 2" by simp
    with run Inr flds it True d show ?thesis
      by (cases r3) (auto simp: download_record_data_def Let_def)
  qed
qed

text \<open>
  Claim C4. In debug mode, whatever the remote listing answers, the enumerator returns,
  and when it returns records there are at most 2 of them; and for every record, the
  files the mirror goes through are at most 2, the first 2 of the record's list of
  files, so that mirroring a record sends at most 2 requests.
\<close>

theorem debug_mode_limits:
  "(\<exists>r w'. get_iodp_records env True w = Some (r, w')
       \<and> (\<forall>records. r = Inr records \<longrightarrow> length records \<le> 2))
   \<and> (\<forall>record_id title_v files_v line.
         record_fields record True = Inr (record_id, title_v, files_v, line) \<longrightarrow>
           (\<exists>items. py_iter files_v = Inr items \<and> length items \<le> 2
              \<and> (\<forall>fs. py_get record ''files'' (JList []) = Inr (JList fs) \<longrightarrow> items = take 2 fs)))
   \<and> (\<forall>r w'. download_record_data env record True w = (r, w') \<longrightarrow>
         length (net w') \<le> length (net w) + 2)"
proof (intro conjI allI impI)
  from get_iodp_records_debug [of env w]
  show "\<exists>r w'. get_iodp_records env True w = Some (r, w')
       \<and> (\<forall>records. r = Inr records \<longrightarrow> length records \<le> 2)"
    by auto
next
  fix record_id title_v files_v line
  assume rf: "record_fields record True = Inr (record_id, title_v, files_v, line)"
  from record_fields_debug_cut [OF rf] obtain items where
    it: "py_iter files_v = Inr items" "length items \<le> 2" by blast
  have "items = take 2 fs" if "py_get record ''files'' (JList []) = Inr (JList fs)" for fs
    using record_fields_debug_list [OF rf that] it(1) by simp
  with it show "\<exists>items. py_iter files_v = Inr items \<and> length items \<le> 2
      \<and> (\<forall>fs. py_get record ''files'' (JList []) = Inr (JList fs) \<longrightarrow> items = take 2 fs)"
    by blast
next
  fix r w'
  assume "download_record_data env record True w = (r, w')"
  then show "length (net w') \<le> length (net w) + 2" by (rule download_record_data_debug_net)
qed

lemma sample_record_fields_debug:
  "record_fields sample_record True =
     Inr (JInt 7, JStr ''Core data'', JList [sample_file ''a.txt'' ''u1'', sample_file ''b.txt'' ''u2''],
          MProcessingDebug (JInt 7) (JStr ''Core data''))"
  by (simp add: record_fields_def sample_record_def)

theorem debug_mode_limits_witness:
  "(\<exists>r w'. get_iodp_records (paged_env three_records 3) True world0 = Some (r, w')
       \<and> (\<forall>records. r = Inr records \<longrightarrow> length records \<le> 2))
   \<and> record_fields sample_record True =
       Inr (JInt 7, JStr ''Core data'', JList [sample_file ''a.txt'' ''u1'', sample_file ''b.txt'' ''u2''],
            MProcessingDebug (JInt 7) (JStr ''Core data''))
   \<and> py_get sample_record ''files'' (JList []) =
       Inr (JList [sample_file ''a.txt'' ''u1'', sample_file ''b.txt'' ''u2'', sample_file ''c.txt'' ''u3''])
   \<and> (\<exists>items. py_iter (JList [sample_file ''a.txt'' ''u1'', sample_file ''b.txt'' ''u2'']) = Inr items
         \<and> length items \<le> 2
         \<and> items = take 2 [sample_file ''a.txt'' ''u1'', sample_file ''b.txt'' ''u2'', sample_file ''c.txt'' ''u3''])
   \<and> length (net (snd (download_record_data (paged_env three_records 3) sample_record True world0)))
        \<le> length (net world0) + 2"
proof -
  note t = debug_mode_limits [of "paged_env three_records 3" world0 sample_record]
  have g: "py_get sample_record ''files'' (JList []) =
      Inr (JList [sample_file ''a.txt'' ''u1'', sample_file ''b.txt'' ''u2'', sample_file ''c.txt'' ''u3''])"
    by (simp add: sample_record_def)
  from t have "\<exists>r w'. get_iodp_records (paged_env three_records 3) True world0 = Some (r, w')
       \<and> (\<forall>records. r = Inr records \<longrightarrow> length records \<le> 2)" by blast
  moreover from t sample_record_fields_debug g
  have "\<exists>items. py_iter (JList [sample_file ''a.txt'' ''u1'', sample_file ''b.txt'' ''u2'']) = Inr items
         \<and> length items \<le> 2
         \<and> items = take 2 [sample_file ''a.txt'' ''u1'', sample_file ''b.txt'' ''u2'', sample_file ''c.txt'' ''u3'']"
    by blast
  moreover from t
  have "length (net (snd (download_record_data (paged_env three_records 3) sample_record True world0)))
        \<le> length (net world0) + 2"
    by (cases "download_record_data (paged_env three_records 3) sample_record True world0") auto
  ultimately show ?thesis using sample_record_fields_debug g by blast
qed

section \<open>Properties of the orchestrator\<close>

subsection \<open>The enumerator only sends listing requests\<close>

lemma fetch_page_Break_frame:
  "fetch_page env debug size' page acc w = Break rs w' \<Longrightarrow>
     files w' = files w \<and> dirs w' = dirs w \<and> net w' = net w @ [ListReq page size' (api_key env)]"
  by (auto simp: fetch_page_def Let_def
      split: listing_response.splits if_splits option.splits sum.splits)

lemma fetch_page_Raise_frame:
  "fetch_page env debug size' page acc w = Raise e w' \<Longrightarrow>
     files w' = files w \<and> dirs w' = dirs w \<and> net w' = net w @ [ListReq page size' (api_key env)]"
  by (auto simp: fetch_page_def Let_def
      split: listing_response.splits if_splits option.splits sum.splits)

lemma fetch_page_NextPage_frame:
  "fetch_page env debug size' page acc w = NextPage rs w' \<Longrightarrow>
     files w' = files w \<and> dirs w' = dirs w \<and> net w' = net w @ [ListReq page size' (api_key env)]"
  by (auto simp: fetch_page_def Let_def
      split: listing_response.splits if_splits option.splits sum.splits)

lemma fetch_pages_frame:
  assumes run: "fetch_pages env debug size' page acc w = Some y"
  shows "files (snd y) = files w \<and> dirs (snd y) = dirs w
     \<and> (\<exists>pages. net (snd y) = net w @ map (\<lambda>q. ListReq q size' (api_key env)) pages)"
proof (rule fetch_pages.raw_induct
    [where P = "\<lambda>env debug size' page acc w y. files (snd y) = files w \<and> dirs (snd y) = dirs w
       \<and> (\<exists>pages. net (snd y) = net w @ map (\<lambda>q. ListReq q size' (api_key env)) pages)", OF _ run])
  fix f env debug size' page all_records w y
  assume IH: "\<And>env debug size' page acc w y. f env debug size' page acc w = Some y \<Longrightarrow>
      files (snd y) = files w \<and> dirs (snd y) = dirs w
       \<and> (\<exists>pages. net (snd y) = net w @ map (\<lambda>q. ListReq q size' (api_key env)) pages)"
    and step: "(case fetch_page env debug size' page all_records w of
        Break rs w' \<Rightarrow> Some (Inr rs, w') | Raise e w' \<Rightarrow> Some (Inl e, w')
      | NextPage rs w' \<Rightarrow> f env debug size' (page + 1) rs w') = Some y"
  show "files (snd y) = files w \<and> dirs (snd y) = dirs w
       \<and> (\<exists>pages. net (snd y) = net w @ map (\<lambda>q. ListReq q size' (api_key env)) pages)"
  proof (cases "fetch_page env debug size' page all_records w")
    case (Break rs w')
    with step have y: "y = (Inr rs, w')" by simp
    from fetch_page_Break_frame [OF Break]
    have "files (snd y) = files w \<and> dirs (snd y) = dirs w
      \<and> net (snd y) = net w @ map (\<lambda>q. ListReq q size' (api_key env)) [page]" by (simp add: y)
    then show ?thesis by blast
  next
    case (Raise e w')
    with step have y: "y = (Inl e, w')" by simp
    from fetch_page_Raise_frame [OF Raise]
    have "files (snd y) = files w \<and> dirs (snd y) = dirs w
      \<and> net (snd y) = net w @ map (\<lambda>q. ListReq q size' (api_key env)) [page]" by (simp add: y)
    then show ?thesis by blast
  next
    case (NextPage rs w')
    with step have "f env debug size' (page + 1) rs w' = Some y" by simp
    from IH [OF this] obtain pages where
      "files (snd y) = files w'" "dirs (snd y) = dirs w'"
      "net (snd y) = net w' @ map (\<lambda>q. ListReq q size' (api_key env)) pages" by blast
    with fetch_page_NextPage_frame [OF NextPage]
    have "files (snd y) = files w \<and> dirs (snd y) = dirs w
      \<and> net (snd y) = net w @ map (\<lambda>q. ListReq q size' (api_key env)) (page # pages)" by simp
    then show ?thesis by blast
  qed
qed

lemma get_iodp_records_frame:
  assumes g: "get_iodp_records env debug w = Some (r, w')"
  shows "files w' = files w \<and> dirs w' = dirs w
     \<and> (\<exists>pages. net w' = net w @ map (\<lambda>q. ListReq q (if debug then 2 else 50) (api_key env)) pages)"
proof -
  let ?w0 = "say [if debug then MFetchingDebug else MFetching] w"
  from g obtain r1 w1 where
    y: "fetch_pages env debug (if debug then 2 else 50) 1 [] ?w0 = Some (r1, w1)"
    by (cases "fetch_pages env debug (if debug then 2 else 50) 1 [] ?w0")
       (auto simp: get_iodp_records_def)
  from fetch_pages_frame [OF y] have
    f: "files w1 = files w" "dirs w1 = dirs w"
    and n: "\<exists>pages. net w1 = net w @ map (\<lambda>q. ListReq q (if debug then 2 else 50) (api_key env)) pages"
    by simp_all
  from g y have "w' = w1 \<or> (\<exists>k. w' = say [MTotalFound k] w1)"
    by (cases r1) (auto simp: get_iodp_records_def)
  then have "files w' = files w1" "dirs w' = dirs w1" "net w' = net w1" by auto
  with f n show ?thesis by simp
qed

subsection \<open>Runs of the script\<close>

lemma DEBUG_unset: "debug_env env = None \<Longrightarrow> \<not> DEBUG env"
  by (simp add: DEBUG_def lower_char_def)

lemma mkdir_data_dir_world0: "mkdir data_dir world0 = Inr (world0\<lparr>dirs := {data_dir}\<rparr>)"
  by (simp add: mkdir_def is_dir_def data_dir_def world0_def parent_def)

lemma script_with_key:
  "mkdir data_dir w = Inr w1 \<Longrightarrow> api_key env = Some k \<Longrightarrow> k \<noteq> [] \<Longrightarrow> script env w = main env w1"
  by (simp add: script_def)

lemma main_no_records:
  "get_iodp_records env (args_debug env \<or> DEBUG env)
     (say ([MBanner, MBannerRule] @ (if args_debug env \<or> DEBUG env then [MDebugEnabled] else [])) w)
       = Some (Inr [], w1) \<Longrightarrow>
   main env w = Some (Inr (), say [MNoRecords] w1)"
  by (simp add: main_def Let_def)



lemma get_iodp_records_empty_listing:
  "get_iodp_records (paged_env [] 0) False w =
     Some (Inr [], say [MTotalFound 0] (send (ListReq 1 50 (Some ''key'')) (say [MFetching] w)))"
proof -
  have "fetch_pages (paged_env [] 0) False 50 1 [] w' =
      Some (Inr [], send (ListReq 1 50 (Some ''key'')) w')" for w'
    by (subst fetch_pages.simps) (simp add: fetch_page_def paged_env_simps page_records_listing_page)
  then show ?thesis by (simp add: get_iodp_records_def)
qed

lemma main_empty_listing:
  "main (paged_env [] 0) w =
     Some (Inr (), say [MNoRecords] (say [MTotalFound 0] (send (ListReq 1 50 (Some ''key''))
       (say [MFetching] (say [MBanner, MBannerRule] w)))))"
proof -
  have d: "\<not> DEBUG (paged_env [] 0)" by (rule DEBUG_unset) (simp add: paged_env_simps)
  with get_iodp_records_empty_listing show ?thesis
    by (intro main_no_records) (simp add: paged_env_simps)
qed

text \<open>
  Claim C7, as the code has it. A missing (or empty) API key ends the run before any
  request is sent and before any file is written, with two lines of message and the exit
  status 1 of \<^verbatim>\<open>sys.exit(1)\<close>. An enumeration that finds no record ends the run
  before the metadata export and before any mirroring, with a message, and nothing has
  happened but the listing requests; \<^verbatim>\<open>main\<close> then returns normally, which is exit
  status 0.
\<close>

theorem startup_preconditions_end_the_run:
  "(mkdir data_dir w = Inr wa \<and> (api_key env = None \<or> api_key env = Some []) \<longrightarrow>
      script env w = Some (Inl (SystemExit 1), say [MNoKey, MKeyHint] wa)
      \<and> exit_status (Inl (SystemExit 1)) = 1
      \<and> net wa = net w \<and> files wa = files w)
   \<and> (get_iodp_records env (args_debug env \<or> DEBUG env)
         (say ([MBanner, MBannerRule] @ (if args_debug env \<or> DEBUG env then [MDebugEnabled] else [])) w)
           = Some (Inr [], wb) \<longrightarrow>
      main env w = Some (Inr (), say [MNoRecords] wb)
      \<and> exit_status (Inr ()) = 0
      \<and> files wb = files w \<and> dirs wb = dirs w
      \<and> (\<exists>pages. net wb = net w @
            map (\<lambda>q. ListReq q (if args_debug env \<or> DEBUG env then 2 else 50) (api_key env)) pages))"
proof (intro conjI impI)
  assume a: "mkdir data_dir w = Inr wa \<and> (api_key env = None \<or> api_key env = Some [])"
  then show "script env w = Some (Inl (SystemExit 1), say [MNoKey, MKeyHint] wa)"
    by (auto simp: script_def)
  show "exit_status (Inl (SystemExit 1)) = 1" by simp
  from a mkdir_frame [of data_dir w wa] show "net wa = net w" "files wa = files w" by simp_all
next
  assume g: "get_iodp_records env (args_debug env \<or> DEBUG env)
         (say ([MBanner, MBannerRule] @ (if args_debug env \<or> DEBUG env then [MDebugEnabled] else [])) w)
           = Some (Inr [], wb)"
  then show "main env w = Some (Inr (), say [MNoRecords] wb)" by (rule main_no_records)
  show "exit_status (Inr ()) = 0" by simp
  from get_iodp_records_frame [OF g]
  show "files wb = files w" "dirs wb = dirs w"
    "\<exists>pages. net wb = net w @
            map (\<lambda>q. ListReq q (if args_debug env \<or> DEBUG env then 2 else 50) (api_key env)) pages"
    by simp_all
qed

theorem startup_preconditions_end_the_run_witness:
  "mkdir data_dir world0 = Inr (world0\<lparr>dirs := {data_dir}\<rparr>) \<and> api_key no_key_env = None
   \<and> script no_key_env world0 =
       Some (Inl (SystemExit 1), say [MNoKey, MKeyHint] (world0\<lparr>dirs := {data_dir}\<rparr>))
   \<and> get_iodp_records (paged_env [] 0) False (say [MBanner, MBannerRule] world0) =
       Some (Inr [], say [MTotalFound 0] (send (ListReq 1 50 (Some ''key''))
         (say [MFetching] (say [MBanner, MBannerRule] world0))))
   \<and> main (paged_env [] 0) world0 =
       Some (Inr (), say [MNoRecords] (say [MTotalFound 0] (send (ListReq 1 50 (Some ''key''))
         (say [MFetching] (say [MBanner, MBannerRule] world0)))))"
proof -
  let ?w2 = "say [MTotalFound 0] (send (ListReq 1 50 (Some ''key''))
         (say [MFetching] (say [MBanner, MBannerRule] world0)))"
  have k: "api_key no_key_env = None" by (simp add: no_key_env_def)
  have d: "\<not> DEBUG (paged_env [] 0)" by (rule DEBUG_unset) (simp add: paged_env_simps)
  note g = get_iodp_records_empty_listing [of "say [MBanner, MBannerRule] world0"]
  from startup_preconditions_end_the_run
      [where w = world0 and wa = "world0\<lparr>dirs := {data_dir}\<rparr>" and env = no_key_env]
    mkdir_data_dir_world0 k
  have 1: "script no_key_env world0 =
       Some (Inl (SystemExit 1), say [MNoKey, MKeyHint] (world0\<lparr>dirs := {data_dir}\<rparr>))"
    by blast
  from startup_preconditions_end_the_run
      [where w = world0 and wb = ?w2 and env = "paged_env [] 0"] g d
  have 2: "main (paged_env [] 0) world0 = Some (Inr (), say [MNoRecords] ?w2)"
    by (simp add: paged_env_simps)
  from mkdir_data_dir_world0 k 1 g 2 show ?thesis by simp
qed

theorem zero_records_exit_status_counterexample:
  "script (paged_env [] 0) world0 =
     Some (Inr (),
       say [MNoRecords] (say [MTotalFound 0] (send (ListReq 1 50 (Some ''key''))
         (say [MFetching] (say [MBanner, MBannerRule] (world0\<lparr>dirs := {data_dir}\<rparr>))))))
   \<and> exit_status (Inr ()) = 0"
  using main_empty_listing
  by (simp add: script_with_key [OF mkdir_data_dir_world0 paged_env_simps(1)])

section \<open>Skipping and downloading one file\<close>

lemma already_there_local_size:
  "already_there env w p file_size =
     Inr (case local_size env w p of None \<Rightarrow> False | Some n \<Rightarrow> py_eq n file_size)"
  by (auto simp: already_there_def local_size_def path_exists_def st_size_def split: option.splits)

lemma download_file_skip:
  assumes "file_fields file_info = Inr (JStr name, download_url, file_size)"
    and "title_dir env record_id record_title w = (Inr d, w2)"
    and "local_size env w2 (pjoin d name) = Some n" and "py_eq n file_size"
  shows "download_file env file_info record_id record_title w = (Inr True, say [MSkipping name] w2)"
  using assms by (simp add: download_file_def already_there_local_size)

lemma download_file_fetch:
  assumes "file_fields file_info = Inr (JStr name, download_url, file_size)"
    and "title_dir env record_id record_title w = (Inr d, w2)"
    and "\<not> (\<exists>n. local_size env w2 (pjoin d name) = Some n \<and> py_eq n file_size)"
  shows "download_file env file_info record_id record_title w =
     (case save_stream env download_url (pjoin d name) (say [MDownloading name file_size] w2) of
        (Inr u, w3) \<Rightarrow> (Inr True, say [MDownloaded name] w3)
      | (Inl e, w3) \<Rightarrow> (Inr False, say [MErrDownloading name e] w3))"
  using assms by (cases "local_size env w2 (pjoin d name)")
    (simp_all add: download_file_def already_there_local_size)

text \<open>What the body of try does with a string URL, case by case.\<close>

lemma save_stream_url:
  "save_stream env (JStr url) p w = (r, w') \<Longrightarrow>
     net w' = net w @ [FileReq url (api_key env)] \<and> dirs w' = dirs w \<and> console w' = console w
     \<and> (case fetch env url of
           DConnError \<Rightarrow> r = Inl RequestException \<and> files w' = files w
         | DResponse status_code chunks complete \<Rightarrow>
             if 400 \<le> status_code \<and> status_code < 600
               then r = Inl (HTTPError status_code) \<and> files w' = files w
             else if is_dir w p \<or> \<not> is_dir w (parent p)
               then r = Inl OSError \<and> files w' = files w
             else files w' = (files w)(p \<mapsto> concat chunks)
               \<and> r = (if complete then Inr () else Inl RequestException))"
proof (cases "fetch env url")
  case DConnError
  assume "save_stream env (JStr url) p w = (r, w')"
  with DConnError show ?thesis by (auto simp: save_stream_def Let_def)
next
  case (DResponse status_code chunks complete)
  assume run: "save_stream env (JStr url) p w = (r, w')"
  let ?w1 = "send (FileReq url (api_key env)) w"
  show ?thesis
  proof (cases "400 \<le> status_code \<and> status_code < 600")
    case True
    with run DResponse show ?thesis by (auto simp: save_stream_def Let_def)
  next
    case ok: False
    show ?thesis
    proof (cases "is_dir w p \<or> \<not> is_dir w (parent p)")
      case True
      then have "open_write p ?w1 = Inl OSError" by (simp add: open_write_def is_dir_def)
      with run DResponse ok True show ?thesis by (auto simp: save_stream_def Let_def)
    next
      case False
      then have o: "open_write p ?w1 = Inr (?w1\<lparr>files := (files ?w1)(p \<mapsto> [])\<rparr>)"
        by (simp add: open_write_def is_dir_def)
      have "files (write_chunks p chunks (?w1\<lparr>files := (files ?w1)(p \<mapsto> [])\<rparr>)) =
          (files w)(p \<mapsto> concat chunks)"
        by (subst write_chunks_files [where c = "[]"]) simp_all
      with run DResponse ok False o show ?thesis
        by (auto simp: save_stream_def Let_def)
    qed
  qed
qed

lemma save_stream_not_url:
  "\<not> (\<exists>url. download_url = JStr url) \<Longrightarrow>
     save_stream env download_url p w = (Inl RequestException, w)"
  by (cases download_url) (auto simp: save_stream_def)

lemma local_size_file:
  "files w p = Some c \<Longrightarrow> \<not> is_dir w p \<Longrightarrow> local_size env w p = Some (length c)"
  by (simp add: local_size_def)

text \<open>
  Claim C3. Take a file whose entry has a name, and the world once the two directories
  are made. The mirror skips the file, returning success without a request, exactly when
  something of that name is at the target path with a byte size equal to the size the
  remote reports. And when a local file is there whose size differs, the mirror sends
  the download request and, unless the request fails or the status is an error, writes
  what the server delivers over the old content.
\<close>

theorem skip_iff_same_size_else_download:
  assumes ff: "file_fields file_info = Inr (JStr name, download_url, file_size)"
    and td: "title_dir env record_id record_title w = (Inr d, w2)"
  shows "((\<exists>w'. download_file env file_info record_id record_title w = (Inr True, w') \<and> net w' = net w)
          \<longleftrightarrow> (\<exists>n. local_size env w2 (pjoin d name) = Some n \<and> py_eq n file_size))
     \<and> (\<forall>old url. files w2 (pjoin d name) = Some old \<and> \<not> is_dir w2 (pjoin d name)
            \<and> is_dir w2 (parent (pjoin d name)) \<and> \<not> py_eq (length old) file_size
            \<and> download_url = JStr url \<longrightarrow>
          (\<exists>ok w'. download_file env file_info record_id record_title w = (Inr ok, w')
             \<and> net w' = net w @ [FileReq url (api_key env)]
             \<and> (case fetch env url of
                  DConnError \<Rightarrow> \<not> ok \<and> files w' = files w
                | DResponse status_code chunks complete \<Rightarrow>
                    if 400 \<le> status_code \<and> status_code < 600 then \<not> ok \<and> files w' = files w
                    else ok = complete \<and> files w' = (files w)(pjoin d name \<mapsto> concat chunks))))"
proof (intro conjI allI impI iffI)
  let ?p = "pjoin d name"
  from title_dir_frame [OF td] have fr: "files w2 = files w" "net w2 = net w" "console w2 = console w"
    by simp_all
  {
    assume "\<exists>n. local_size env w2 ?p = Some n \<and> py_eq n file_size"
    then obtain n where "local_size env w2 ?p = Some n" "py_eq n file_size" by blast
    from download_file_skip [OF ff td this] fr
    show "\<exists>w'. download_file env file_info record_id record_title w = (Inr True, w') \<and> net w' = net w"
      by simp
  }
  {
    assume skip: "\<exists>w'. download_file env file_info record_id record_title w = (Inr True, w') \<and> net w' = net w"
    show "\<exists>n. local_size env w2 ?p = Some n \<and> py_eq n file_size"
    proof (rule ccontr)
      assume no: "\<not> (\<exists>n. local_size env w2 ?p = Some n \<and> py_eq n file_size)"
      note df = download_file_fetch [OF ff td no]
      obtain r3 w3 where
        ss: "save_stream env download_url ?p (say [MDownloading name file_size] w2) = (r3, w3)"
        by (cases "save_stream env download_url ?p (say [MDownloading name file_size] w2)") auto
      show False
      proof (cases "\<exists>url. download_url = JStr url")
        case True
        then obtain url where u: "download_url = JStr url" ..
        from save_stream_url [OF ss [unfolded u]] fr
        have "net w3 = net w @ [FileReq url (api_key env)]" by simp
        with skip df ss show False by (cases r3) auto
      next
        case False
        then have "save_stream env download_url ?p (say [MDownloading name file_size] w2) =
            (Inl RequestException, say [MDownloading name file_size] w2)"
          by (rule save_stream_not_url)
        with skip df show False by simp
      qed
    qed
  }
  {
    fix old url
    assume a: "files w2 ?p = Some old \<and> \<not> is_dir w2 ?p \<and> is_dir w2 (parent ?p)
        \<and> \<not> py_eq (length old) file_size \<and> download_url = JStr url"
    then have u: "download_url = JStr url" by simp
    from a have "local_size env w2 ?p = Some (length old)" by (simp add: local_size_file)
    with a have no: "\<not> (\<exists>n. local_size env w2 ?p = Some n \<and> py_eq n file_size)" by simp
    note df = download_file_fetch [OF ff td no]
    let ?w2' = "say [MDownloading name file_size] w2"
    obtain r3 w3 where ss: "save_stream env (JStr url) ?p ?w2' = (r3, w3)"
      by (cases "save_stream env (JStr url) ?p ?w2'") auto
    from a have d: "\<not> (is_dir ?w2' ?p \<or> \<not> is_dir ?w2' (parent ?p))" by (simp add: is_dir_def)
    from save_stream_url [OF ss] d fr
    have n3: "net w3 = net w @ [FileReq url (api_key env)]"
      and c3: "case fetch env url of
           DConnError \<Rightarrow> r3 = Inl RequestException \<and> files w3 = files w
         | DResponse status_code chunks complete \<Rightarrow>
             if 400 \<le> status_code \<and> status_code < 600
               then r3 = Inl (HTTPError status_code) \<and> files w3 = files w
             else files w3 = (files w)(?p \<mapsto> concat chunks)
               \<and> r3 = (if complete then Inr () else Inl RequestException)"
      by (simp_all split: file_response.splits)
    show "\<exists>ok w'. download_file env file_info record_id record_title w = (Inr ok, w')
             \<and> net w' = net w @ [FileReq url (api_key env)]
             \<and> (case fetch env url of
                  DConnError \<Rightarrow> \<not> ok \<and> files w' = files w
                | DResponse status_code chunks complete \<Rightarrow>
                    if 400 \<le> status_code \<and> status_code < 600 then \<not> ok \<and> files w' = files w
                    else ok = complete \<and> files w' = (files w)(?p \<mapsto> concat chunks))"
    proof (cases r3)
      case (Inl e)
      with df ss u have "download_file env file_info record_id record_title w =
          (Inr False, say [MErrDownloading name e] w3)" by simp
      moreover from c3 Inl n3 have "net (say [MErrDownloading name e] w3) = net w @ [FileReq url (api_key env)]
        \<and> (case fetch env url of
                  DConnError \<Rightarrow> \<not> False \<and> files (say [MErrDownloading name e] w3) = files w
                | DResponse status_code chunks complete \<Rightarrow>
                    if 400 \<le> status_code \<and> status_code < 600
                      then \<not> False \<and> files (say [MErrDownloading name e] w3) = files w
                    else False = complete
                      \<and> files (say [MErrDownloading name e] w3) = (files w)(?p \<mapsto> concat chunks))"
        by (auto split: file_response.splits if_splits)
      ultimately show ?thesis by blast
    next
      case (Inr u')
      with df ss u have "download_file env file_info record_id record_title w =
          (Inr True, say [MDownloaded name] w3)" by simp
      moreover from c3 Inr n3 have "net (say [MDownloaded name] w3) = net w @ [FileReq url (api_key env)]
        \<and> (case fetch env url of
                  DConnError \<Rightarrow> \<not> True \<and> files (say [MDownloaded name] w3) = files w
                | DResponse status_code chunks complete \<Rightarrow>
                    if 400 \<le> status_code \<and> status_code < 600
                      then \<not> True \<and> files (say [MDownloaded name] w3) = files w
                    else True = complete
                      \<and> files (say [MDownloaded name] w3) = (files w)(?p \<mapsto> concat chunks))"
        by (auto split: file_response.splits if_splits)
      ultimately show ?thesis by blast
    qed
  }
qed

subsection \<open>The sample record on disk\<close>

lemma serving_env_simps:
  "api_key serving_env = Some ''key''" "debug_env serving_env = None"
  "args_debug serving_env = False" "dir_st_size serving_env = 4096"
  "fetch serving_env ''u1'' = DResponse 200 [''ab'', [], ''c''] True"
  "fetch serving_env ''u2'' = DResponse 404 [] True"
  "fetch serving_env ''u3'' = DConnError"
  "fetch serving_env ''u4'' = DResponse 200 [''de''] True"
  by (simp_all add: serving_env_def)

lemma str_int_7: "str_int 7 = ''7''"
  by (simp add: str_int_def digits.simps [of 7] digit_char_def)

lemma safe_title_core_data: "safe_title (JStr ''Core data'') = Inr ''Core data''"
  by (simp add: safe_title_def str_isalnum_def isalnum_def rstrip_def isspace_def)

lemma parts_simple:
  "parts ''record_7'' = [''record_7'']" "parts ''Core data'' = [''Core data'']"
  "parts ''a.txt'' = [''a.txt'']" "parts ''b.txt'' = [''b.txt'']" "parts ''c.txt'' = [''c.txt'']"
  "parts ''iodp_metadata.json'' = [''iodp_metadata.json'']"
  by (simp_all add: parts_def)

lemma root_of_simple:
  "root_of ''record_7'' = []" "root_of ''Core data'' = []"
  "root_of ''a.txt'' = []" "root_of ''b.txt'' = []" "root_of ''c.txt'' = []"
  "root_of ''iodp_metadata.json'' = []"
  by (simp_all add: root_of_def)

lemma sample_paths:
  "record_dir env (JInt 7) = ([], [''data'', ''record_7''])"
  "pjoin ([], [''data'', ''record_7'']) (dir_name ''Core data'') = sample_dir"
  "pjoin sample_dir ''a.txt'' = ([], [''data'', ''record_7'', ''Core data'', ''a.txt''])"
  "pjoin sample_dir ''b.txt'' = ([], [''data'', ''record_7'', ''Core data'', ''b.txt''])"
  "pjoin sample_dir ''c.txt'' = ([], [''data'', ''record_7'', ''Core data'', ''c.txt''])"
  "parent ([], [''data'', ''record_7'', ''Core data'', ''a.txt'']) = sample_dir"
  by (simp_all add: record_dir_def pjoin_def data_dir_def str_int_7 parts_simple root_of_simple
      dir_name_def sample_dir_def parent_def)

lemma title_dir_eval:
  assumes "record_dir env record_id = rd" and "mkdir rd w = Inr w1"
    and "safe_title record_title = Inr safe" and "pjoin rd (dir_name safe) = d"
    and "mkdir d w1 = Inr w2"
  shows "title_dir env record_id record_title w = (Inr d, w2)"
  using assms by (simp add: title_dir_def Let_def)

lemma mkdir_existing: "is_dir w p \<Longrightarrow> mkdir p w = Inr w"
  by (simp add: mkdir_def)

lemma mirror_world_dirs:
  "is_dir (mirror_world fs) ([], [''data'', ''record_7''])" "is_dir (mirror_world fs) sample_dir"
  by (simp_all add: is_dir_def mirror_world_def)

lemma title_dir_mirror_world:
  "title_dir env (JInt 7) (JStr ''Core data'') (mirror_world fs) = (Inr sample_dir, mirror_world fs)"
  by (rule title_dir_eval [OF sample_paths(1) mkdir_existing safe_title_core_data sample_paths(2)
        mkdir_existing]) (rule mirror_world_dirs)+

lemma mkdir_record_7:
  "mkdir ([], [''data'', ''record_7'']) (world0\<lparr>dirs := {data_dir}\<rparr>) =
     Inr (world0\<lparr>dirs := {([], [''data'', ''record_7'']), data_dir}\<rparr>)"
  by (simp add: mkdir_def is_dir_def world0_def data_dir_def parent_def)

lemma mkdir_sample_dir:
  "mkdir sample_dir (world0\<lparr>dirs := {([], [''data'', ''record_7'']), data_dir}\<rparr>) =
     Inr (world0\<lparr>dirs := {sample_dir, ([], [''data'', ''record_7'']), data_dir}\<rparr>)"
  by (simp add: mkdir_def is_dir_def world0_def data_dir_def parent_def sample_dir_def)

lemma title_dir_data_world:
  "title_dir env (JInt 7) (JStr ''Core data'') (world0\<lparr>dirs := {data_dir}\<rparr>) =
     (Inr sample_dir, world0\<lparr>dirs := {sample_dir, ([], [''data'', ''record_7'']), data_dir}\<rparr>)"
  by (rule title_dir_eval [OF sample_paths(1) mkdir_record_7 safe_title_core_data sample_paths(2)
        mkdir_sample_dir])

lemma file_fields_sample:
  "file_fields (sample_file name url) = Inr (JStr name, JStr url, JInt 3)"
  by (simp add: file_fields_def sample_file_def)

theorem skip_iff_same_size_else_download_witness:
  "file_fields (sample_file ''a.txt'' ''u1'') = Inr (JStr ''a.txt'', JStr ''u1'', JInt 3)
   \<and> title_dir serving_env (JInt 7) (JStr ''Core data'') (mirror_world [pjoin sample_dir ''a.txt'' \<mapsto> ''xyz''])
        = (Inr sample_dir, mirror_world [pjoin sample_dir ''a.txt'' \<mapsto> ''xyz''])
   \<and> local_size serving_env (mirror_world [pjoin sample_dir ''a.txt'' \<mapsto> ''xyz'']) (pjoin sample_dir ''a.txt'') = Some 3
   \<and> py_eq 3 (JInt 3)
   \<and> (\<exists>w'. download_file serving_env (sample_file ''a.txt'' ''u1'') (JInt 7) (JStr ''Core data'')
               (mirror_world [pjoin sample_dir ''a.txt'' \<mapsto> ''xyz'']) = (Inr True, w')
          \<and> net w' = net (mirror_world [pjoin sample_dir ''a.txt'' \<mapsto> ''xyz'']))
   \<and> title_dir serving_env (JInt 7) (JStr ''Core data'') (mirror_world [pjoin sample_dir ''a.txt'' \<mapsto> ''x''])
        = (Inr sample_dir, mirror_world [pjoin sample_dir ''a.txt'' \<mapsto> ''x''])
   \<and> files (mirror_world [pjoin sample_dir ''a.txt'' \<mapsto> ''x'']) (pjoin sample_dir ''a.txt'') = Some ''x''
   \<and> \<not> py_eq (length ''x'') (JInt 3)
   \<and> (\<exists>w'. download_file serving_env (sample_file ''a.txt'' ''u1'') (JInt 7) (JStr ''Core data'')
               (mirror_world [pjoin sample_dir ''a.txt'' \<mapsto> ''x'']) = (Inr True, w')
          \<and> net w' = [FileReq ''u1'' (Some ''key'')]
          \<and> files w' = [pjoin sample_dir ''a.txt'' \<mapsto> ''abc''])"
proof -
  let ?p = "pjoin sample_dir ''a.txt''"
  let ?A = "mirror_world [?p \<mapsto> ''xyz'']" and ?B = "mirror_world [?p \<mapsto> ''x'']"
  note ff = file_fields_sample [of "''a.txt''" "''u1''"]
  note tA = title_dir_mirror_world [of serving_env "[?p \<mapsto> ''xyz'']"]
  note tB = title_dir_mirror_world [of serving_env "[?p \<mapsto> ''x'']"]
  have nd: "\<not> is_dir (mirror_world fs) ?p" "is_dir (mirror_world fs) (parent ?p)" for fs
    unfolding sample_paths by (simp_all add: is_dir_def mirror_world_def sample_dir_def data_dir_def)
  have lA: "local_size serving_env ?A ?p = Some 3"
    using nd [of "[?p \<mapsto> ''xyz'']"] by (simp add: local_size_def) (simp add: mirror_world_def)
  have fB: "files ?B ?p = Some ''x''" by (simp add: mirror_world_def)
  from skip_iff_same_size_else_download [OF ff tA] lA
  have 1: "\<exists>w'. download_file serving_env (sample_file ''a.txt'' ''u1'') (JInt 7) (JStr ''Core data'') ?A
      = (Inr True, w') \<and> net w' = net ?A" by simp
  from skip_iff_same_size_else_download [OF ff tB] fB nd [of "[?p \<mapsto> ''x'']"]
  have "\<exists>ok w'. download_file serving_env (sample_file ''a.txt'' ''u1'') (JInt 7) (JStr ''Core data'') ?B
       = (Inr ok, w')
      \<and> net w' = net ?B @ [FileReq ''u1'' (api_key serving_env)]
      \<and> (case fetch serving_env ''u1'' of
            DConnError \<Rightarrow> \<not> ok \<and> files w' = files ?B
          | DResponse status_code chunks complete \<Rightarrow>
              if 400 \<le> status_code \<and> status_code < 600 then \<not> ok \<and> files w' = files ?B
              else ok = complete \<and> files w' = (files ?B)(?p \<mapsto> concat chunks))"
    by simp
  then have 2: "\<exists>w'. download_file serving_env (sample_file ''a.txt'' ''u1'') (JInt 7) (JStr ''Core data'') ?B
       = (Inr True, w') \<and> net w' = [FileReq ''u1'' (Some ''key'')] \<and> files w' = [?p \<mapsto> ''abc'']"
    by (auto simp: serving_env_simps mirror_world_def)
  from ff tA tB lA fB 1 2 show ?thesis by simp
qed

subsection \<open>A file without a size\<close>

text \<open>
  Claim C10. A file entry without a size field has size 0; when a file of no bytes is at
  its target path, the mirror skips it without a request, returns True, and the loop
  over the files counts it as a success.
\<close>

theorem missing_size_counts_as_zero:
  assumes fi: "file_info = JObj kvs" and nosize: "map_of kvs ''size'' = None"
    and key: "map_of kvs ''key'' = Some (JStr name)"
    and links: "map_of kvs ''links'' = Some links" "py_subscript links ''self'' = Inr download_url"
    and td: "title_dir env record_id record_title w = (Inr d, w2)"
    and empty: "files w2 (pjoin d name) = Some []" "\<not> is_dir w2 (pjoin d name)"
  shows "file_fields file_info = Inr (JStr name, download_url, JInt 0)
    \<and> download_file env file_info record_id record_title w = (Inr True, say [MSkipping name] w2)
    \<and> net w2 = net w \<and> files w2 = files w
    \<and> download_files env [file_info] record_id record_title success_count w =
         (Inr (success_count + 1), say [MSkipping name] w2)"
proof -
  from fi nosize key links have ff: "file_fields file_info = Inr (JStr name, download_url, JInt 0)"
    by (simp add: file_fields_def)
  from empty have ls: "local_size env w2 (pjoin d name) = Some 0" by (simp add: local_size_def)
  have "py_eq 0 (JInt 0)" by simp
  from download_file_skip [OF ff td ls this]
  have df: "download_file env file_info record_id record_title w = (Inr True, say [MSkipping name] w2)" .
  from title_dir_frame [OF td] have "net w2 = net w" "files w2 = files w" by simp_all
  with ff df show ?thesis by simp
qed

lemma sizeless_file_simps:
  "map_of [(''key'', JStr ''a.txt''), (''links'', JObj [(''self'', JStr ''u1'')])] ''size'' = None"
  "map_of [(''key'', JStr ''a.txt''), (''links'', JObj [(''self'', JStr ''u1'')])] ''key'' = Some (JStr ''a.txt'')"
  "map_of [(''key'', JStr ''a.txt''), (''links'', JObj [(''self'', JStr ''u1'')])] ''links'' = Some (JObj [(''self'', JStr ''u1'')])"
  "py_subscript (JObj [(''self'', JStr ''u1'')]) ''self'' = Inr (JStr ''u1'')"
  by simp_all

theorem missing_size_counts_as_zero_witness:
  "map_of [(''key'', JStr ''a.txt''), (''links'', JObj [(''self'', JStr ''u1'')])] ''size'' = None
   \<and> title_dir serving_env (JInt 7) (JStr ''Core data'') (mirror_world [pjoin sample_dir ''a.txt'' \<mapsto> []])
        = (Inr sample_dir, mirror_world [pjoin sample_dir ''a.txt'' \<mapsto> []])
   \<and> files (mirror_world [pjoin sample_dir ''a.txt'' \<mapsto> []]) (pjoin sample_dir ''a.txt'') = Some []
   \<and> file_fields sizeless_file = Inr (JStr ''a.txt'', JStr ''u1'', JInt 0)
   \<and> download_file serving_env sizeless_file (JInt 7) (JStr ''Core data'')
        (mirror_world [pjoin sample_dir ''a.txt'' \<mapsto> []])
        = (Inr True, say [MSkipping ''a.txt''] (mirror_world [pjoin sample_dir ''a.txt'' \<mapsto> []]))
   \<and> download_files serving_env [sizeless_file] (JInt 7) (JStr ''Core data'') 0
        (mirror_world [pjoin sample_dir ''a.txt'' \<mapsto> []])
        = (Inr 1, say [MSkipping ''a.txt''] (mirror_world [pjoin sample_dir ''a.txt'' \<mapsto> []]))"
proof -
  let ?p = "pjoin sample_dir ''a.txt''"
  let ?w = "mirror_world [?p \<mapsto> []]"
  note td = title_dir_mirror_world [of serving_env "[?p \<mapsto> []]"]
  have f: "files ?w ?p = Some []" by (simp add: mirror_world_def)
  have nd: "\<not> is_dir ?w ?p"
    unfolding sample_paths by (simp add: is_dir_def mirror_world_def sample_dir_def data_dir_def)
  from missing_size_counts_as_zero [OF sizeless_file_def sizeless_file_simps td f nd, of 0]
    sizeless_file_simps(1) td f
  show ?thesis by simp
qed

section \<open>Where failures are caught\<close>











section \<open>Properties of the sanitizer\<close>

lemma long_title_sanitized:
  "rstrip (filter allowed_char long_title) = long_title_dir" "take 100 long_title_dir = long_title_dir"
  by code_simp+

lemma str_isalnum_single [simp]: "str_isalnum [c] = isalnum c"
  by (simp add: str_isalnum_def)

lemma single_eq [simp]:
  "([c] = '' '') = (c = CHR '' '')" "([c] = ''-'') = (c = CHR ''-'')" "([c] = ''_'') = (c = CHR ''_'')"
  by simp_all

lemma kept_chars: "kept (map (\<lambda>c. JStr [c]) t) = Inr (filter allowed_char t)"
proof (induction t)
  case Nil
  show ?case by simp
next
  case (Cons c t)
  show ?case
  proof (cases "allowed_char c")
    case True
    with Cons show ?thesis unfolding allowed_char_def by simp
  next
    case False
    with Cons show ?thesis unfolding allowed_char_def by simp
  qed
qed

lemma item_allowed:
  "str_isalnum c \<or> c \<in> {'' '', ''-'', ''_''} \<Longrightarrow> \<forall>x\<in>set c. allowed_char x"
  by (auto simp: str_isalnum_def allowed_char_def list_all_iff)

lemma kept_allowed: "kept cs = Inr s \<Longrightarrow> \<forall>x\<in>set s. allowed_char x"
proof (induction cs arbitrary: s)
  case Nil
  then show ?case by simp
next
  case (Cons a cs)
  show ?case
  proof (cases a)
    case (JStr c)
    with Cons.prems obtain r where r: "kept cs = Inr r"
      and s: "s = (if str_isalnum c \<or> c \<in> {'' '', ''-'', ''_''} then c else []) @ r"
      by (cases "kept cs") auto
    from Cons.IH [OF r] have "\<forall>x\<in>set r. allowed_char x" .
    moreover have "\<forall>x\<in>set (if str_isalnum c \<or> c \<in> {'' '', ''-'', ''_''} then c else []). allowed_char x"
      using item_allowed [of c] by (cases "str_isalnum c \<or> c \<in> {'' '', ''-'', ''_''}") simp_all
    ultimately show ?thesis unfolding s by (simp only: set_append ball_Un simp_thms)
  qed (use Cons.prems in simp_all)
qed

lemma set_rstrip: "set (rstrip s) \<subseteq> set s"
  using set_dropWhileD [of _ isspace "rev s"] by (auto simp: rstrip_def)

text \<open>
  Claim C8, as the code has it. Whatever the title, the directory name made from it
  contains only alphanumerics, spaces, hyphens and underscores and has at most 100
  characters. For a title that is a string it is produced by stripping every other
  character, then removing the white space at the end, then cutting to 100 characters.
\<close>

theorem sanitized_directory_name:
  "(\<forall>safe. safe_title record_title = Inr safe \<longrightarrow>
       (\<forall>c\<in>set (dir_name safe). allowed_char c) \<and> length (dir_name safe) \<le> 100)
   \<and> (\<forall>t. record_title = JStr t \<longrightarrow>
         safe_title record_title = Inr (rstrip (filter allowed_char t))
         \<and> dir_name (rstrip (filter allowed_char t)) = take 100 (rstrip (filter allowed_char t)))"
proof (intro conjI allI impI)
  fix safe
  assume st: "safe_title record_title = Inr safe"
  then obtain cs s where k: "kept cs = Inr s" and sf: "safe = rstrip s"
    by (auto simp: safe_title_def split: sum.splits)
  have "set (dir_name safe) \<subseteq> set safe" by (simp add: dir_name_def set_take_subset)
  also have "\<dots> \<subseteq> set s" unfolding sf by (rule set_rstrip)
  finally show "\<forall>c\<in>set (dir_name safe). allowed_char c" using kept_allowed [OF k] by blast
  show "length (dir_name safe) \<le> 100" by (simp add: dir_name_def)
next
  fix t
  assume "record_title = JStr t"
  then show "safe_title record_title = Inr (rstrip (filter allowed_char t))"
    by (simp add: safe_title_def kept_chars)
  show "dir_name (rstrip (filter allowed_char t)) = take 100 (rstrip (filter allowed_char t))"
    by (simp add: dir_name_def)
qed

theorem sanitized_directory_name_witness:
  "safe_title (JStr long_title) = Inr long_title_dir
   \<and> dir_name long_title_dir = long_title_dir
   \<and> list_all allowed_char (dir_name long_title_dir)
   \<and> length (dir_name long_title_dir) \<le> 100"
proof -
  note t = sanitized_directory_name [of "JStr long_title"]
  from t have a: "safe_title (JStr long_title) = Inr long_title_dir"
    and b: "dir_name long_title_dir = long_title_dir"
    by (simp_all add: long_title_sanitized)
  from t a have "\<forall>c\<in>set (dir_name long_title_dir). allowed_char c"
    and d: "length (dir_name long_title_dir) \<le> 100" by simp_all
  then have "list_all allowed_char (dir_name long_title_dir)" by (simp only: list_all_iff)
  with a b d show ?thesis by (intro conjI)
qed

theorem trailing_space_counterexample:
  "safe_title (JStr ''a '') = Inr ''a'' \<and> dir_name ''a'' = ''a'' \<and> strip_then_truncate ''a '' = ''a ''"
  by code_simp

section \<open>Properties of the metadata exporter\<close>














section \<open>Running the mirror twice\<close>



lemma same_fs:
  assumes "dirs w' = dirs w" and "files w' = files w"
  shows "dirs_made env record_id record_title w' = dirs_made env record_id record_title w"
    and "settled env record_id record_title w' f = settled env record_id record_title w f"
proof -
  from assms have "is_dir w' p = is_dir w p" "local_size env w' p = local_size env w p" for p
    by (simp_all add: local_size_def is_dir_def)
  then show "dirs_made env record_id record_title w' = dirs_made env record_id record_title w"
    and "settled env record_id record_title w' f = settled env record_id record_title w f"
    by (simp_all add: dirs_made_def settled_def cong: sum.case_cong option.case_cong prod.case_cong)
qed

lemma say_same_fs [simp]:
  "dirs_made env record_id record_title (say ms w) = dirs_made env record_id record_title w"
  "settled env record_id record_title (say ms w) f = settled env record_id record_title w f"
  by (rule same_fs; simp)+











subsection \<open>Runs on a record with one file\<close>



















end
